theory Spec2Isabelle
  imports Main "HOL-Library.List_Lexorder" "HOL-Library.Char_ord"
begin

section \<open>Persistence layer: the Message and Conversation collections\<close>

text \<open>
  Identifiers are the strings the handlers pass around (\<^verbatim>\<open>userId\<close>, \<^verbatim>\<open>receiver\<close>,
  \<^verbatim>\<open>conversationId\<close>), taken in canonical form: casting a well-formed identifier string to
  an ObjectId and printing it again gives the same string. Whether a string is well formed
  is decided by the library function \<^verbatim>\<open>mongoose.Types.ObjectId.isValid\<close>, which is not part
  of the repository; every operation that depends on it takes it as the parameter \<open>isValid\<close>.
  Dates are numbers (milliseconds). Identifiers, event names, URLs and the fixed messages
  are written as Isabelle strings. The text a client sends (\<^verbatim>\<open>content\<close>, \<^verbatim>\<open>text\<close>) is a JavaScript
  string, that is the sequence of its UTF-16 code units: \<open>js_string\<close>. A code unit is a
  number below 65536; nothing here depends on the bound.
\<close>

type_synonym oid = string
type_synonym js_string = "nat list"
type_synonym date = nat

text \<open>The Message schema (\<^verbatim>\<open>models/Message\<close>, second part of src/unnamed/part_000). \<open>m_id\<close> is the document's \<^verbatim>\<open>_id\<close>. The store's
  bookkeeping stamps \<^verbatim>\<open>createdAt\<close>/\<^verbatim>\<open>updatedAt\<close> are not modelled; \<^verbatim>\<open>text\<close> is an alias of
  \<open>content\<close>.\<close>

record Message =
  m_id :: oid
  conversation :: "oid option"
  sender :: oid
  receiver :: oid
  content :: js_string
  attachments :: "string list"
  timestamp :: date
  read :: bool
  readAt :: "date option"

text \<open>The Conversation schema (\<^verbatim>\<open>models/Conversation\<close>, first part of src/unnamed/part_000). \<open>c_id\<close> is \<^verbatim>\<open>_id\<close>;
  \<^verbatim>\<open>lastMessageText\<close> is an alias whose setter writes \<open>lastMessage\<close>.\<close>

record Conversation =
  c_id :: oid
  participants :: "oid list"
  lastMessage :: "js_string option"
  lastMessageFrom :: "oid option"
  lastMessageAt :: date
  unreadCount :: int

text \<open>A collection is the list of its documents in insertion order; \<^verbatim>\<open>findOne\<close> returns the
  first match.\<close>

record store =
  Messages :: "Message list"
  Conversations :: "Conversation list"

text \<open>What a handler run takes from its environment: the clock, and the identifiers the
  driver generates for the documents it constructs (\<^verbatim>\<open>new Message\<close>, \<^verbatim>\<open>new Conversation\<close> in
  the pre-save hook, the document an upsert inserts).\<close>

record env =
  now :: date
  new_message_id :: oid
  new_conversation_id :: oid
  upsert_conversation_id :: oid

datatype store_error = ValidationError

fun update_first :: "('a \<Rightarrow> bool) \<Rightarrow> ('a \<Rightarrow> 'a) \<Rightarrow> 'a list \<Rightarrow> 'a list" where
  "update_first P f [] = []"
| "update_first P f (x # xs) = (if P x then f x # xs else x # update_first P f xs)"

definition updateMany :: "('a \<Rightarrow> bool) \<Rightarrow> ('a \<Rightarrow> 'a) \<Rightarrow> 'a list \<Rightarrow> 'a list" where
  "updateMany P f xs = map (\<lambda>x. if P x then f x else x) xs"

text \<open>The query \<^verbatim>\<open>{ participants: { $all: ps, $size: 2 } }\<close>.\<close>

definition all_size2 :: "oid list \<Rightarrow> Conversation \<Rightarrow> bool" where
  "all_size2 ps c = (list_all (\<lambda>p. p \<in> set (participants c)) ps \<and> length (participants c) = 2)"

definition findOne_participants :: "store \<Rightarrow> oid list \<Rightarrow> Conversation option" where
  "findOne_participants st ps = find (all_size2 ps) (Conversations st)"

definition findById :: "store \<Rightarrow> oid \<Rightarrow> Conversation option" where
  "findById st i = find (\<lambda>c. c_id c = i) (Conversations st)"

definition findByIdAndUpdate :: "oid \<Rightarrow> (Conversation \<Rightarrow> Conversation) \<Rightarrow> store \<Rightarrow> store" where
  "findByIdAndUpdate i f st = st\<lparr>Conversations := update_first (\<lambda>c. c_id c = i) f (Conversations st)\<rparr>"

subsection \<open>Strings\<close>

text \<open>A string literal of the source as code units (the literals are ASCII).\<close>

definition of_ascii :: "string \<Rightarrow> js_string" where
  "of_ascii s = map of_char s"

text \<open>
  \<^verbatim>\<open>String.prototype.trim\<close> removes white space and line terminators at both ends. These are
  the code units U+0009 to U+000D, U+0020, U+00A0, U+1680, U+2000 to U+200A, U+2028,
  U+2029, U+202F, U+205F, U+3000 and U+FEFF.
\<close>

definition is_space :: "nat \<Rightarrow> bool" where
  "is_space c =
     (c \<in> set [0x09, 0x0A, 0x0B, 0x0C, 0x0D, 0x20, 0xA0, 0x1680, 0x2028, 0x2029, 0x202F, 0x205F,
               0x3000, 0xFEFF]
      \<or> (0x2000 \<le> c \<and> c \<le> 0x200A))"

definition trim :: "js_string \<Rightarrow> js_string" where
  "trim s = rev (dropWhile is_space (rev (dropWhile is_space s)))"

text \<open>The preview of an attachment-only message: U+1F4CE (paperclip, a surrogate pair), then
  \<^verbatim>\<open> Attachment\<close>.\<close>

definition attachment_marker :: js_string where
  "attachment_marker = [0xD83D, 0xDCCE] @ of_ascii '' Attachment''"

subsection \<open>Documents and their defaults\<close>

definition new_Message :: "env \<Rightarrow> oid option \<Rightarrow> oid \<Rightarrow> oid \<Rightarrow> js_string \<Rightarrow> string list \<Rightarrow> Message" where
  "new_Message e conv s r c atts =
     \<lparr>m_id = new_message_id e, conversation = conv, sender = s, receiver = r, content = c,
      attachments = atts, timestamp = now e, read = False, readAt = None\<rparr>"

definition new_Conversation :: "oid \<Rightarrow> date \<Rightarrow> oid list \<Rightarrow> Conversation" where
  "new_Conversation i t ps =
     \<lparr>c_id = i, participants = ps, lastMessage = None, lastMessageFrom = None,
      lastMessageAt = t, unreadCount = 0\<rparr>"

subsection \<open>Saving a Message: schema validation, then the pre-save hook, then the insert\<close>

text \<open>
  The schema: \<open>sender\<close> and \<open>receiver\<close> are required ObjectIds, \<open>conversation\<close> is an
  ObjectId when present, and \<open>content\<close> is required exactly when there are no attachments
  (a required string must be non-empty).
\<close>

definition Message_validate :: "(string \<Rightarrow> bool) \<Rightarrow> Message \<Rightarrow> bool" where
  "Message_validate isValid m =
     (isValid (sender m) \<and> isValid (receiver m)
      \<and> (case conversation m of None \<Rightarrow> True | Some c \<Rightarrow> isValid c)
      \<and> (if attachments m = [] then content m \<noteq> [] else True))"

text \<open>
  \<^verbatim>\<open>messageSchema.pre('save')\<close>: when the message has no conversation yet, the hook looks for
  the conversation of the pair with \<^verbatim>\<open>findOne\<close> and, if there is none, constructs and saves
  one. The two store calls are separate awaits; \<open>found\<close> is what the \<^verbatim>\<open>findOne\<close> returned,
  and \<open>pre_save\<close> is the hook run without anything happening in between.
\<close>

definition pre_save_with :: "env \<Rightarrow> Conversation option \<Rightarrow> store \<Rightarrow> Message \<Rightarrow> store \<times> Message" where
  "pre_save_with e found st m =
     (if conversation m = None \<and> sender m \<noteq> [] \<and> receiver m \<noteq> [] then
        (case found of
           Some c \<Rightarrow> (st, m\<lparr>conversation := Some (c_id c)\<rparr>)
         | None \<Rightarrow>
             (st\<lparr>Conversations := Conversations st
                    @ [new_Conversation (new_conversation_id e) (now e) [sender m, receiver m]]\<rparr>,
              m\<lparr>conversation := Some (new_conversation_id e)\<rparr>))
      else (st, m))"

definition Message_save_with ::
  "(string \<Rightarrow> bool) \<Rightarrow> env \<Rightarrow> Conversation option \<Rightarrow> store \<Rightarrow> Message \<Rightarrow> store_error + (store \<times> Message)" where
  "Message_save_with isValid e found st m =
     (if \<not> Message_validate isValid m then Inl ValidationError
      else (case pre_save_with e found st m of
              (st1, m1) \<Rightarrow> Inr (st1\<lparr>Messages := Messages st1 @ [m1]\<rparr>, m1)))"

definition Message_save ::
  "(string \<Rightarrow> bool) \<Rightarrow> env \<Rightarrow> store \<Rightarrow> Message \<Rightarrow> store_error + (store \<times> Message)" where
  "Message_save isValid e st m =
     Message_save_with isValid e (findOne_participants st [sender m, receiver m]) st m"

subsection \<open>The conversation upsert of the direct-send handler\<close>

text \<open>
  \<^verbatim>\<open>Conversation.findOneAndUpdate(query, {$set, $setOnInsert}, {new: true, upsert: true})\<close>,
  one store operation: the first match gets the \<^verbatim>\<open>$set\<close> fields; without a match a document
  is inserted with the \<^verbatim>\<open>$set\<close> fields, the \<^verbatim>\<open>$setOnInsert\<close> participants and the schema's
  defaults. The updated document is returned.
\<close>

definition set_last :: "js_string \<Rightarrow> date \<Rightarrow> oid \<Rightarrow> Conversation \<Rightarrow> Conversation" where
  "set_last preview t from c = c\<lparr>lastMessage := Some preview, lastMessageAt := t, lastMessageFrom := Some from\<rparr>"

definition findOneAndUpdate_upsert ::
  "env \<Rightarrow> oid list \<Rightarrow> js_string \<Rightarrow> oid \<Rightarrow> oid list \<Rightarrow> store \<Rightarrow> store \<times> Conversation" where
  "findOneAndUpdate_upsert e query preview from ins st =
     (case find (all_size2 query) (Conversations st) of
        Some c \<Rightarrow>
          (st\<lparr>Conversations := update_first (all_size2 query) (set_last preview (now e) from) (Conversations st)\<rparr>,
           set_last preview (now e) from c)
      | None \<Rightarrow>
          (st\<lparr>Conversations := Conversations st
                 @ [set_last preview (now e) from (new_Conversation (upsert_conversation_id e) (now e) ins)]\<rparr>,
           set_last preview (now e) from (new_Conversation (upsert_conversation_id e) (now e) ins)))"

section \<open>Presence registry (backend/socket.js, connection and disconnect handlers)\<close>

text \<open>
  \<open>onlineUsers\<close> is the module's \<^verbatim>\<open>Map\<close> from user id to \<^verbatim>\<open>socket.id\<close>. \<open>rooms\<close> is the
  transport's own record of the open connections and the rooms they joined: a pair
  \<open>(h, r)\<close> says the connection with handle \<open>h\<close> is open and in room \<open>r\<close>. The transport
  drops a connection's memberships when it closes. Connection handles (\<^verbatim>\<open>socket.id\<close>) are
  opaque and never empty; they are numbers here.
\<close>

type_synonym handle = nat

record server =
  db :: store
  onlineUsers :: "oid \<rightharpoonup> handle"
  rooms :: "(handle \<times> oid) list"

definition on_connection :: "handle \<Rightarrow> oid \<Rightarrow> server \<Rightarrow> server" where
  "on_connection h userId srv =
     srv\<lparr>onlineUsers := (onlineUsers srv)(userId \<mapsto> h),
         rooms := rooms srv @ [(h, userId)]\<rparr>"

definition on_disconnect :: "handle \<Rightarrow> oid \<Rightarrow> server \<Rightarrow> server" where
  "on_disconnect h userId srv =
     srv\<lparr>onlineUsers := (onlineUsers srv)(userId := None),
         rooms := filter (\<lambda>(h', r). h' \<noteq> h) (rooms srv)\<rparr>"

section \<open>Message relay engine (backend/socket.js)\<close>

text \<open>
  What a handler sends: \<^verbatim>\<open>socket.emit\<close> goes to the calling connection (\<open>Socket\<close>),
  \<^verbatim>\<open>io.to(socketId).emit\<close> to one connection (\<open>ToSocket\<close>), \<^verbatim>\<open>io.to(userId).emit\<close> to the
  room named by a user id (\<open>ToRoom\<close>). An \<open>Error\<close> carries the \<^verbatim>\<open>message\<close> field; the
  library's text that the catch branches add as \<^verbatim>\<open>error\<close> is left out.
\<close>

datatype target = Socket | ToSocket handle | ToRoom oid

record convoSummary =
  s_conversationId :: string
  s_userId :: oid
  s_lastMessage :: js_string
  s_timestamp :: date
  s_unread :: nat

datatype event =
    Error string
  | ReceiveMessage Message
  | NewMessage string Message
  | MessageSaved Message
  | ConversationUpdated convoSummary
  | ReadReceipt "oid list option"

type_synonym emit = "target \<times> event"

text \<open>JavaScript's \<^verbatim>\<open>!x\<close> on an optional string: true for \<^verbatim>\<open>undefined\<close> and for \<^verbatim>\<open>''\<close>.\<close>

definition falsy :: "'a list option \<Rightarrow> bool" where
  "falsy x = (case x of None \<Rightarrow> True | Some s \<Rightarrow> s = [])"

subsection \<open>Direct-send dialect: the sendMessage handler\<close>

record sendMessage_payload =
  p_receiver :: "string option"
  p_content :: "js_string option"
  p_attachments :: "string list option"

text \<open>The destructuring defaults \<^verbatim>\<open>content = ''\<close> and \<^verbatim>\<open>attachments = []\<close>.\<close>

definition content_of :: "sendMessage_payload \<Rightarrow> js_string" where
  "content_of p = (case p_content p of None \<Rightarrow> [] | Some c \<Rightarrow> c)"

definition attachments_of :: "sendMessage_payload \<Rightarrow> string list" where
  "attachments_of p = (case p_attachments p of None \<Rightarrow> [] | Some a \<Rightarrow> a)"

definition receiver_of :: "sendMessage_payload \<Rightarrow> string" where
  "receiver_of p = (case p_receiver p of None \<Rightarrow> [] | Some r \<Rightarrow> r)"

text \<open>\<^verbatim>\<open>[senderObjectId.toString(), receiverObjectId.toString()].sort()\<close>: the two identifiers
  in the order of their code units.\<close>

definition participantsSorted :: "oid \<Rightarrow> oid \<Rightarrow> oid list" where
  "participantsSorted a b = sort [a, b]"

definition lastMessagePreview :: "js_string \<Rightarrow> string list \<Rightarrow> js_string" where
  "lastMessagePreview c atts =
     (if c \<noteq> [] \<and> trim c \<noteq> [] then c else if atts \<noteq> [] then attachment_marker else [])"

text \<open>Everything the handler emits after the message is saved and the conversation upserted,
  in the order of the source.\<close>

definition sendMessage_emits ::
  "oid \<Rightarrow> oid \<Rightarrow> handle option \<Rightarrow> Message \<Rightarrow> Conversation \<Rightarrow> js_string \<Rightarrow> emit list" where
  "sendMessage_emits userId rcv receiverSocketId savedMessage convoDoc preview =
     (let convoSummary = \<lparr>s_conversationId = c_id convoDoc, s_userId = rcv, s_lastMessage = preview,
                           s_timestamp = timestamp savedMessage, s_unread = 0\<rparr>
      in (case receiverSocketId of
            Some h \<Rightarrow> [(ToSocket h, ReceiveMessage savedMessage),
                       (ToSocket h, NewMessage (c_id convoDoc) savedMessage)]
          | None \<Rightarrow> [(ToRoom rcv, ReceiveMessage savedMessage),
                     (ToRoom rcv, NewMessage (c_id convoDoc) savedMessage)])
         @ [(Socket, MessageSaved savedMessage),
            (Socket, ConversationUpdated convoSummary)]
         @ (case receiverSocketId of
              Some h \<Rightarrow> [(ToSocket h, ConversationUpdated (convoSummary\<lparr>s_userId := userId, s_unread := 1\<rparr>))]
            | None \<Rightarrow> [])
         @ [(ToRoom rcv, ConversationUpdated (convoSummary\<lparr>s_userId := userId, s_unread := 1\<rparr>)),
            (Socket, NewMessage (c_id convoDoc) savedMessage),
            (ToRoom rcv, NewMessage (c_id convoDoc) savedMessage)])"

text \<open>
  The handler. \<open>found\<close> is what the pre-save hook's \<^verbatim>\<open>findOne\<close> returned (see
  \<open>pre_save_with\<close>); \<open>on_sendMessage\<close> is the handler run on its own, every store call
  seeing the store as the previous one left it.
\<close>

definition on_sendMessage_with ::
  "(string \<Rightarrow> bool) \<Rightarrow> env \<Rightarrow> Conversation option \<Rightarrow> oid \<Rightarrow> sendMessage_payload \<Rightarrow> server
     \<Rightarrow> server \<times> emit list" where
  "on_sendMessage_with isValid e found userId p srv =
     (if falsy (p_receiver p) \<or> (trim (content_of p) = [] \<and> attachments_of p = []) then
        (srv, [(Socket, Error ''receiver and either content or attachments is required'')])
      else if \<not> isValid (receiver_of p) then
        (srv, [(Socket, Error ''Invalid receiver ID format'')])
      else
        (case Message_save_with isValid e found (db srv)
                (new_Message e None userId (receiver_of p) (content_of p) (attachments_of p)) of
           Inl err \<Rightarrow> (srv, [(Socket, Error ''Failed to send message'')])
         | Inr (st1, savedMessage) \<Rightarrow>
             (case findOneAndUpdate_upsert e (participantsSorted userId (receiver_of p))
                     (lastMessagePreview (content_of p) (attachments_of p)) userId
                     [userId, receiver_of p] st1 of
                (st2, convoDoc) \<Rightarrow>
                  (srv\<lparr>db := st2\<rparr>,
                   sendMessage_emits userId (receiver_of p) (onlineUsers srv (receiver_of p))
                     savedMessage convoDoc (lastMessagePreview (content_of p) (attachments_of p))))))"

definition on_sendMessage ::
  "(string \<Rightarrow> bool) \<Rightarrow> env \<Rightarrow> oid \<Rightarrow> sendMessage_payload \<Rightarrow> server \<Rightarrow> server \<times> emit list" where
  "on_sendMessage isValid e userId p srv =
     on_sendMessage_with isValid e (findOne_participants (db srv) [userId, receiver_of p]) userId p srv"

subsection \<open>Two direct-send events in flight together\<close>

text \<open>
  Every store call of a handler is an \<^verbatim>\<open>await\<close>, at which another handler may run. This is
  the schedule in which two direct-send events are received and both pre-save hooks get
  the answer of their \<^verbatim>\<open>findOne\<close> before either handler goes on; after that the first
  handler runs to its end, then the second.
\<close>

definition two_sends_interleaved ::
  "(string \<Rightarrow> bool) \<Rightarrow> env \<Rightarrow> oid \<Rightarrow> sendMessage_payload \<Rightarrow> env \<Rightarrow> oid \<Rightarrow> sendMessage_payload
     \<Rightarrow> server \<Rightarrow> server" where
  "two_sends_interleaved isValid eA uA pA eB uB pB srv =
     (let foundA = findOne_participants (db srv) [uA, receiver_of pA];
          foundB = findOne_participants (db srv) [uB, receiver_of pB];
          srvA = fst (on_sendMessage_with isValid eA foundA uA pA srv)
      in fst (on_sendMessage_with isValid eB foundB uB pB srvA))"

subsection \<open>Conversation-centric dialect: the newMessage handler\<close>

record newMessage_payload =
  p_conversationId :: "string option"
  p_text :: "js_string option"

definition conversationId_of :: "newMessage_payload \<Rightarrow> string" where
  "conversationId_of p = (case p_conversationId p of None \<Rightarrow> [] | Some c \<Rightarrow> c)"

definition text_of :: "newMessage_payload \<Rightarrow> js_string" where
  "text_of p = (case p_text p of None \<Rightarrow> [] | Some t \<Rightarrow> t)"

definition inc_unread :: "js_string \<Rightarrow> oid \<Rightarrow> date \<Rightarrow> Conversation \<Rightarrow> Conversation" where
  "inc_unread txt from t c =
     c\<lparr>lastMessage := Some txt, lastMessageFrom := Some from, lastMessageAt := t,
       unreadCount := unreadCount c + 1\<rparr>"

text \<open>\<^verbatim>\<open>formattedMessage\<close> is the saved message with its sender replaced by an object holding
  the caller's id.\<close>

definition formattedMessage :: "oid \<Rightarrow> Message \<Rightarrow> Message" where
  "formattedMessage userId m = m\<lparr>sender := userId\<rparr>"

definition newMessage_emits ::
  "oid \<Rightarrow> oid \<Rightarrow> handle option \<Rightarrow> Message \<Rightarrow> string \<Rightarrow> js_string \<Rightarrow> date \<Rightarrow> emit list" where
  "newMessage_emits userId recipient recipientSocketId savedMessage conversationId txt t =
     (let convoSummary = \<lparr>s_conversationId = conversationId, s_userId = recipient, s_lastMessage = txt,
                           s_timestamp = t, s_unread = 0\<rparr>
      in [(Socket, NewMessage conversationId (formattedMessage userId savedMessage))]
         @ (case recipientSocketId of
              Some h \<Rightarrow> [(ToSocket h, NewMessage conversationId (formattedMessage userId savedMessage)),
                         (ToSocket h, ReceiveMessage savedMessage)]
            | None \<Rightarrow> [])
         @ [(ToRoom recipient, NewMessage conversationId (formattedMessage userId savedMessage)),
            (ToRoom recipient, ReceiveMessage savedMessage),
            (Socket, MessageSaved savedMessage),
            (Socket, ConversationUpdated convoSummary)]
         @ (case recipientSocketId of
              Some h \<Rightarrow> [(ToSocket h, ConversationUpdated (convoSummary\<lparr>s_userId := userId, s_unread := 1\<rparr>))]
            | None \<Rightarrow> [])
         @ [(ToRoom recipient, ConversationUpdated (convoSummary\<lparr>s_userId := userId, s_unread := 1\<rparr>))])"

text \<open>
  \<^verbatim>\<open>Conversation.findById\<close> casts its argument: a string that is not a well-formed identifier
  makes the query reject, and the handler's catch reports the failure.
\<close>

definition on_newMessage ::
  "(string \<Rightarrow> bool) \<Rightarrow> env \<Rightarrow> oid \<Rightarrow> newMessage_payload \<Rightarrow> server \<Rightarrow> server \<times> emit list" where
  "on_newMessage isValid e userId p srv =
     (if falsy (p_conversationId p) \<or> falsy (p_text p) \<or> trim (text_of p) = [] then
        (srv, [(Socket, Error ''Conversation ID and text are required'')])
      else if \<not> isValid (conversationId_of p) then
        (srv, [(Socket, Error ''Failed to send message'')])
      else
        (case findById (db srv) (conversationId_of p) of
           None \<Rightarrow> (srv, [(Socket, Error ''Conversation not found'')])
         | Some conv \<Rightarrow>
             (case find (\<lambda>q. q \<noteq> userId) (participants conv) of
                None \<Rightarrow> (srv, [(Socket, Error ''Recipient not found in conversation'')])
              | Some recipient \<Rightarrow>
                  (case Message_save isValid e (db srv)
                          (new_Message e (Some (conversationId_of p)) userId recipient
                             (trim (text_of p)) []) of
                     Inl err \<Rightarrow> (srv, [(Socket, Error ''Failed to send message'')])
                   | Inr (st1, savedMessage) \<Rightarrow>
                       (srv\<lparr>db := findByIdAndUpdate (conversationId_of p)
                                     (inc_unread (trim (text_of p)) userId (now e)) st1\<rparr>,
                        newMessage_emits userId recipient (onlineUsers srv recipient) savedMessage
                          (conversationId_of p) (trim (text_of p)) (now e))))))"

subsection \<open>Read marking: the markRead handler\<close>

text \<open>\<^verbatim>\<open>Message.updateMany({_id: {$in: messageIds}}, {$set: {read: true, readAt: new Date()}})\<close>,
  then the read receipt with the ids as they came. Without a list of ids (\<open>None\<close>) the query
  matches no document and the receipt is still emitted. An identifier that cannot be cast
  makes the query reject; the catch only logs.\<close>

definition on_markRead ::
  "(string \<Rightarrow> bool) \<Rightarrow> env \<Rightarrow> oid list option \<Rightarrow> server \<Rightarrow> server \<times> emit list" where
  "on_markRead isValid e messageIds srv =
     (case messageIds of
        None \<Rightarrow> (srv, [(Socket, ReadReceipt None)])
      | Some ids \<Rightarrow>
          if \<not> list_all isValid ids then (srv, [])
          else (srv\<lparr>db := (db srv)\<lparr>Messages :=
                         updateMany (\<lambda>m. m_id m \<in> set ids) (\<lambda>m. m\<lparr>read := True, readAt := Some (now e)\<rparr>)
                           (Messages (db srv))\<rparr>\<rparr>,
                [(Socket, ReadReceipt (Some ids))]))"

section \<open>Read-state tracker: the HTTP routes (backend/routes/messages.js)\<close>

text \<open>
  The routes run behind the \<^verbatim>\<open>isAuthenticated\<close> middleware, which is not in the repository's
  files: \<open>userId\<close> is the authenticated \<^verbatim>\<open>req.user.id\<close>. A response is its status and what the
  claims need of its body. Queries cast the identifiers they are given; a string that
  cannot be cast makes the query reject, which the routes' catch turns into status 500.
\<close>

datatype response =
    BadRequest string
  | NotFound string
  | ServerError
  | OkMessages "Message list"
  | OkMarked nat

text \<open>\<^verbatim>\<open>GET /conversations/:conversationId/messages\<close>. The messages are read first, then the
  unread ones not sent by the caller are marked, then the conversation's counter is reset.
  The response is ordered by creation time, which is the message's \<open>timestamp\<close> here.\<close>

definition get_conversation_messages ::
  "(string \<Rightarrow> bool) \<Rightarrow> env \<Rightarrow> oid \<Rightarrow> oid \<Rightarrow> store \<Rightarrow> store \<times> response" where
  "get_conversation_messages isValid e userId conversationId st =
     (if \<not> isValid conversationId \<or> \<not> isValid userId then (st, ServerError)
      else
        (case find (\<lambda>c. c_id c = conversationId \<and> userId \<in> set (participants c)) (Conversations st) of
           None \<Rightarrow> (st, NotFound ''Conversation not found or you are not a participant'')
         | Some conv \<Rightarrow>
             (findByIdAndUpdate conversationId (\<lambda>c. c\<lparr>unreadCount := 0\<rparr>)
                (st\<lparr>Messages :=
                      updateMany (\<lambda>m. conversation m = Some conversationId \<and> sender m \<noteq> userId \<and> read m = False)
                        (\<lambda>m. m\<lparr>read := True, readAt := Some (now e)\<rparr>) (Messages st)\<rparr>),
              OkMessages (sort_key timestamp
                            (filter (\<lambda>m. conversation m = Some conversationId) (Messages st))))))"

text \<open>\<^verbatim>\<open>PUT /mark-read\<close>: \<^verbatim>\<open>Message.updateMany({_id: {$in: messageIds}}, {$set: {read: true}})\<close>.
  \<open>None\<close> is a body without an array of ids. The count reported is the number of documents
  the update touched.\<close>

definition mark_read :: "(string \<Rightarrow> bool) \<Rightarrow> oid list option \<Rightarrow> store \<Rightarrow> store \<times> response" where
  "mark_read isValid messageIds st =
     (case messageIds of
        None \<Rightarrow> (st, BadRequest ''Please provide an array of message IDs'')
      | Some ids \<Rightarrow>
          if ids = [] then (st, BadRequest ''Please provide an array of message IDs'')
          else if \<not> list_all isValid ids then (st, ServerError)
          else (st\<lparr>Messages := updateMany (\<lambda>m. m_id m \<in> set ids) (\<lambda>m. m\<lparr>read := True\<rparr>) (Messages st)\<rparr>,
                OkMarked (length (filter (\<lambda>m. m_id m \<in> set ids) (Messages st)))))"

section \<open>Client-side socket manager (utils/socket.ts)\<close>

text \<open>
  The module's variables form the manager's state. The transport (socket.io-client) is not
  part of the repository; what is modelled of a socket object is its \<^verbatim>\<open>connected\<close> flag and
  its table of listeners, with the emitter's operations: \<^verbatim>\<open>on(event, fn)\<close> appends a
  listener, \<^verbatim>\<open>off(event)\<close> removes every listener of the event, \<^verbatim>\<open>off(event, fn)\<close> removes
  one occurrence of \<open>fn\<close>, \<^verbatim>\<open>removeAllListeners()\<close> empties the table. Functions are compared
  by identity: the application's callbacks are numbered, and the three handlers that
  \<^verbatim>\<open>initializeSocket\<close> attaches are \<open>OnConnect\<close>, \<open>OnDisconnect\<close> and \<open>OnConnectError\<close>. They sit
  in the same table as the application's listeners.
\<close>

datatype SocketConnectionStatus = CONNECTED | DISCONNECTED | CONNECTING | ERROR

datatype handler = OnConnect | OnDisconnect | OnConnectError | Callback nat

record SocketEventListener =
  event :: string
  callback :: nat
  listener_id :: string

record client_socket =
  sock_url :: string
  connected :: bool
  handlers :: "(string \<times> handler) list"

text \<open>\<open>reconnectTimer\<close> is the variable: the timer it refers to, as the timer's delay
  and whether it is still to fire (the variable is not reset when the timer fires). Every
  \<^verbatim>\<open>setTimeout\<close> of the module is preceded by a \<^verbatim>\<open>clearTimeout\<close> of the variable, so no other
  timer is ever pending. \<open>token\<close> is what the secure store holds under the auth-token key.\<close>

record manager =
  SOCKET_BASE_URL :: string
  socket :: "client_socket option"
  reconnectAttempts :: nat
  reconnectTimer :: "(nat \<times> bool) option"
  connectionStatus :: SocketConnectionStatus
  socketEventListeners :: "SocketEventListener list"
  token :: "string option"

definition timerPending :: "manager \<Rightarrow> bool" where
  "timerPending m = (case reconnectTimer m of Some (d, p) \<Rightarrow> p | None \<Rightarrow> False)"

definition MAX_RECONNECT_ATTEMPTS :: nat where "MAX_RECONNECT_ATTEMPTS = 5"
definition RECONNECT_INTERVAL :: nat where "RECONNECT_INTERVAL = 1000"

text \<open>\<open>DEV_IP\<close> is the default used when the build configuration gives none.\<close>

definition DEV_IP :: string where "DEV_IP = ''192.168.1.15''"

definition FALLBACK_URLS :: "string list" where
  "FALLBACK_URLS = [''https://peteat-backend.onrender.com'', ''http://'' @ DEV_IP @ '':5000'',
                    ''http://10.0.2.2:5000'', ''http://localhost:5000'']"

definition socket_on :: "string \<Rightarrow> handler \<Rightarrow> client_socket \<Rightarrow> client_socket" where
  "socket_on ev h s = s\<lparr>handlers := handlers s @ [(ev, h)]\<rparr>"

definition socket_off :: "string \<Rightarrow> client_socket \<Rightarrow> client_socket" where
  "socket_off ev s = s\<lparr>handlers := filter (\<lambda>(e', h). e' \<noteq> ev) (handlers s)\<rparr>"

definition socket_off_fn :: "string \<Rightarrow> handler \<Rightarrow> client_socket \<Rightarrow> client_socket" where
  "socket_off_fn ev h s = s\<lparr>handlers := remove1 (ev, h) (handlers s)\<rparr>"

text \<open>\<^verbatim>\<open>tryFallbackUrls\<close>: the candidates are probed in order, the current base URL skipped; the
  first that accepts a connection becomes the base URL. Which URLs accept a connection is
  the environment's answer \<open>reachable\<close>.\<close>

definition tryFallbackUrls :: "(string \<Rightarrow> bool) \<Rightarrow> manager \<Rightarrow> bool \<times> manager" where
  "tryFallbackUrls reachable m =
     (case find (\<lambda>u. u \<noteq> SOCKET_BASE_URL m \<and> reachable u) FALLBACK_URLS of
        Some u \<Rightarrow> (True, m\<lparr>SOCKET_BASE_URL := u\<rparr>)
      | None \<Rightarrow> (False, m))"

text \<open>\<^verbatim>\<open>cleanupSocket\<close>: the socket object loses all its listeners, is disconnected if it was
  connected, and the variable is set to \<^verbatim>\<open>null\<close>, so nothing of the old object reaches the
  manager afterwards; a timer the variable refers to is cleared.\<close>

definition cleanupSocket :: "manager \<Rightarrow> manager" where
  "cleanupSocket m =
     (let m1 = (case socket m of Some s \<Rightarrow> m\<lparr>socket := None\<rparr> | None \<Rightarrow> m);
          m2 = (case reconnectTimer m1 of
                  Some t \<Rightarrow> m1\<lparr>reconnectTimer := None\<rparr>
                | None \<Rightarrow> m1)
      in m2\<lparr>connectionStatus := DISCONNECTED\<rparr>)"

text \<open>\<^verbatim>\<open>initializeSocket\<close>: without a token the status becomes \<open>ERROR\<close> and nothing else
  happens; otherwise a previous socket is cleaned up and a new one is created, with the
  manager's three handlers attached.\<close>

definition initializeSocket :: "manager \<Rightarrow> manager" where
  "initializeSocket m =
     (if falsy (token m) then m\<lparr>connectionStatus := ERROR\<rparr>
      else
        (let m1 = (case socket m of Some s \<Rightarrow> cleanupSocket m | None \<Rightarrow> m)
         in m1\<lparr>connectionStatus := CONNECTING,
               socket := Some \<lparr>sock_url = SOCKET_BASE_URL m1, connected = False,
                               handlers = [(''connect'', OnConnect), (''disconnect'', OnDisconnect),
                                           (''connect_error'', OnConnectError)]\<rparr>\<rparr>))"

definition reapplyEventListeners :: "manager \<Rightarrow> manager" where
  "reapplyEventListeners m =
     (case socket m of
        None \<Rightarrow> m
      | Some s \<Rightarrow>
          m\<lparr>socket := Some
               (foldl (\<lambda>s l. socket_on (event l) (Callback (callback l)) s)
                  (foldl (\<lambda>s l. socket_off (event l) s) s (socketEventListeners m))
                  (socketEventListeners m))\<rparr>)"

text \<open>\<^verbatim>\<open>attemptReconnect\<close>. At the cap the fallback URLs are probed once more; if none answers
  the status is set to \<open>ERROR\<close> and the socket is cleaned up, and no timer is set.\<close>

definition attemptReconnect :: "(string \<Rightarrow> bool) \<Rightarrow> manager \<Rightarrow> manager" where
  "attemptReconnect reachable m =
     (if reconnectAttempts m \<ge> MAX_RECONNECT_ATTEMPTS then
        (case tryFallbackUrls reachable m of
           (True, m1) \<Rightarrow> initializeSocket (m1\<lparr>reconnectAttempts := 0\<rparr>)
         | (False, m1) \<Rightarrow> cleanupSocket (m1\<lparr>connectionStatus := ERROR\<rparr>))
      else
        m\<lparr>reconnectAttempts := reconnectAttempts m + 1,
          reconnectTimer := Some (RECONNECT_INTERVAL * 2 ^ (reconnectAttempts m + 1 - 1), True)\<rparr>)"

text \<open>The bodies of the three handlers that \<^verbatim>\<open>initializeSocket\<close> attaches.\<close>

definition on_connect :: "manager \<Rightarrow> manager" where
  "on_connect m =
     (let m1 = m\<lparr>connectionStatus := CONNECTED, reconnectAttempts := 0\<rparr>;
          m2 = (case reconnectTimer m1 of
                  Some t \<Rightarrow> m1\<lparr>reconnectTimer := None\<rparr>
                | None \<Rightarrow> m1)
      in reapplyEventListeners m2)"

definition on_socket_disconnect :: "(string \<Rightarrow> bool) \<Rightarrow> string \<Rightarrow> manager \<Rightarrow> manager" where
  "on_socket_disconnect reachable reason m =
     (let m1 = m\<lparr>connectionStatus := DISCONNECTED\<rparr>
      in if reason = ''io server disconnect'' \<or> reason = ''transport close''
         then attemptReconnect reachable m1 else m1)"

definition on_connect_error :: "(string \<Rightarrow> bool) \<Rightarrow> manager \<Rightarrow> manager" where
  "on_connect_error reachable m =
     (case tryFallbackUrls reachable (m\<lparr>connectionStatus := ERROR\<rparr>) of
        (True, m1) \<Rightarrow> initializeSocket m1
      | (False, m1) \<Rightarrow> attemptReconnect reachable m1)"

text \<open>The callback of the reconnect timer.\<close>

definition on_timer :: "manager \<Rightarrow> manager" where
  "on_timer m =
     (if connectionStatus m = DISCONNECTED \<or> connectionStatus m = ERROR
      then initializeSocket m else m)"

subsection \<open>The listener registry\<close>

text \<open>\<open>lid\<close> is the identifier \<^verbatim>\<open>generateListenerId\<close> drew.\<close>

definition addSocketListener :: "string \<Rightarrow> nat \<Rightarrow> string \<Rightarrow> manager \<Rightarrow> manager" where
  "addSocketListener ev cb lid m =
     (let m1 = m\<lparr>socketEventListeners :=
                   socketEventListeners m @ [\<lparr>event = ev, callback = cb, listener_id = lid\<rparr>]\<rparr>
      in case socket m1 of
           Some s \<Rightarrow> m1\<lparr>socket := Some (socket_on ev (Callback cb) s)\<rparr>
         | None \<Rightarrow> m1)"

definition removeSocketListenerById :: "string \<Rightarrow> manager \<Rightarrow> manager \<times> bool" where
  "removeSocketListenerById lid m =
     (case find (\<lambda>l. listener_id l = lid) (socketEventListeners m) of
        Some l \<Rightarrow>
          (let m1 = m\<lparr>socketEventListeners := remove1 l (socketEventListeners m)\<rparr>
           in (case socket m1 of
                 Some s \<Rightarrow> (m1\<lparr>socket := Some (socket_off_fn (event l) (Callback (callback l)) s)\<rparr>, True)
               | None \<Rightarrow> (m1, True)))
      | None \<Rightarrow> (m, False))"

definition removeSocketListener :: "string \<Rightarrow> nat option \<Rightarrow> manager \<Rightarrow> manager" where
  "removeSocketListener ev cb m =
     (case socket m of
        None \<Rightarrow> m
      | Some s \<Rightarrow>
          if ev = [] then m
          else (case cb of
                  Some f \<Rightarrow>
                    m\<lparr>socket := Some (socket_off_fn ev (Callback f) s),
                      socketEventListeners :=
                        (case find (\<lambda>l. event l = ev \<and> callback l = f) (socketEventListeners m) of
                           Some l \<Rightarrow> remove1 l (socketEventListeners m)
                         | None \<Rightarrow> socketEventListeners m)\<rparr>
                | None \<Rightarrow>
                    m\<lparr>socket := Some (socket_off ev s),
                      socketEventListeners := filter (\<lambda>l. event l \<noteq> ev) (socketEventListeners m)\<rparr>))"

subsection \<open>What reaches the manager\<close>

text \<open>
  The transport delivers an event to the listeners attached for it at that moment; the
  application's callbacks do not touch the manager's variables. A \<^verbatim>\<open>connect\<close> sets the
  socket's \<open>connected\<close> flag, a \<^verbatim>\<open>disconnect\<close> clears it. The reconnect timer fires once if it
  is pending. Without a socket object and without a pending timer nothing reaches the
  manager until the application calls it again.
\<close>

datatype manager_input = Connect | ConnectError | Disconnect string | Timer

fun step :: "(string \<Rightarrow> bool) \<Rightarrow> manager \<Rightarrow> manager_input \<Rightarrow> manager" where
  "step reachable m Connect =
     (case socket m of
        None \<Rightarrow> m
      | Some s \<Rightarrow>
          if (''connect'', OnConnect) \<in> set (handlers s)
          then on_connect (m\<lparr>socket := Some (s\<lparr>connected := True\<rparr>)\<rparr>)
          else m\<lparr>socket := Some (s\<lparr>connected := True\<rparr>)\<rparr>)"
| "step reachable m ConnectError =
     (case socket m of
        None \<Rightarrow> m
      | Some s \<Rightarrow>
          if (''connect_error'', OnConnectError) \<in> set (handlers s)
          then on_connect_error reachable m else m)"
| "step reachable m (Disconnect reason) =
     (case socket m of
        None \<Rightarrow> m
      | Some s \<Rightarrow>
          if (''disconnect'', OnDisconnect) \<in> set (handlers s)
          then on_socket_disconnect reachable reason (m\<lparr>socket := Some (s\<lparr>connected := False\<rparr>)\<rparr>)
          else m\<lparr>socket := Some (s\<lparr>connected := False\<rparr>)\<rparr>)"
| "step reachable m Timer =
     (case reconnectTimer m of
        Some (d, True) \<Rightarrow> on_timer (m\<lparr>reconnectTimer := Some (d, False)\<rparr>)
      | _ \<Rightarrow> m)"

definition run :: "(string \<Rightarrow> bool) \<Rightarrow> manager \<Rightarrow> manager_input list \<Rightarrow> manager" where
  "run reachable m evs = foldl (step reachable) m evs"

section \<open>Sample data for the concrete instances\<close>

text \<open>Well-formed identifiers in the instances below are 24 hexadecimal digits.\<close>

definition isHex24 :: "string \<Rightarrow> bool" where
  "isHex24 s = (length s = 24 \<and> list_all (\<lambda>c. c \<in> set ''0123456789abcdef'') s)"

definition alice :: oid where "alice = ''64b000000000000000000001''"
definition bob :: oid where "bob = ''64b000000000000000000002''"

definition env0 :: env where
  "env0 = \<lparr>now = 1000, new_message_id = ''64b0000000000000000000a1'',
            new_conversation_id = ''64b0000000000000000000c1'',
            upsert_conversation_id = ''64b0000000000000000000c2''\<rparr>"

definition env1 :: env where
  "env1 = \<lparr>now = 2000, new_message_id = ''64b0000000000000000000a2'',
            new_conversation_id = ''64b0000000000000000000c3'',
            upsert_conversation_id = ''64b0000000000000000000c4''\<rparr>"

definition server0 :: server where
  "server0 = \<lparr>db = \<lparr>Messages = [], Conversations = []\<rparr>, onlineUsers = Map.empty, rooms = []\<rparr>"

text \<open>A store in which bob has written to alice once, and bob is connected on handle 7.\<close>

definition conv1 :: Conversation where
  "conv1 = \<lparr>c_id = ''64b0000000000000000000c0'', participants = [alice, bob],
             lastMessage = Some (of_ascii ''hello''), lastMessageFrom = Some bob, lastMessageAt = 500,
             unreadCount = 3\<rparr>"

definition msg1 :: Message where
  "msg1 = \<lparr>m_id = ''64b0000000000000000000a0'', conversation = Some ''64b0000000000000000000c0'',
            sender = bob, receiver = alice, content = of_ascii ''hello'', attachments = [],
            timestamp = 500, read = False, readAt = None\<rparr>"

definition server1 :: server where
  "server1 = \<lparr>db = \<lparr>Messages = [msg1], Conversations = [conv1]\<rparr>,
               onlineUsers = [bob \<mapsto> 7], rooms = [(7, bob)]\<rparr>"

text \<open>The message alice's reply is saved as, under \<open>env1\<close>.\<close>

definition msg2 :: Message where
  "msg2 = \<lparr>m_id = ''64b0000000000000000000a2'', conversation = Some ''64b0000000000000000000c0'',
            sender = alice, receiver = bob, content = of_ascii ''on my way'', attachments = [],
            timestamp = 2000, read = False, readAt = None\<rparr>"

text \<open>The manager as the module is loaded, with a stored token.\<close>

definition manager0 :: manager where
  "manager0 = \<lparr>SOCKET_BASE_URL = ''http://localhost:5000'', socket = None, reconnectAttempts = 0,
                reconnectTimer = None, connectionStatus = DISCONNECTED,
                socketEventListeners = [], token = Some ''jwt''\<rparr>"

text \<open>An environment in which no fallback URL answers, one in which all do, and a history of
  failures: the handshake fails, the timer fires, five times over, and the handshake fails
  again.\<close>

definition all_down :: "string \<Rightarrow> bool" where "all_down u = False"
definition all_up :: "string \<Rightarrow> bool" where "all_up u = True"

definition failures :: "manager_input list" where
  "failures = [ConnectError, Timer, ConnectError, Timer, ConnectError, Timer, ConnectError, Timer,
               ConnectError, Timer, ConnectError]"

text \<open>The manager right after \<^verbatim>\<open>initializeSocket\<close>, with \<open>n\<close> reconnect attempts counted.\<close>

definition connecting :: "nat \<Rightarrow> manager" where
  "connecting n =
     manager0\<lparr>socket := Some \<lparr>sock_url = ''http://localhost:5000'', connected = False,
                               handlers = [(''connect'', OnConnect), (''disconnect'', OnDisconnect),
                                           (''connect_error'', OnConnectError)]\<rparr>,
              reconnectAttempts := n, connectionStatus := CONNECTING\<rparr>"

section \<open>Facts about the model\<close>

subsection \<open>Lists and strings\<close>

lemma trim_nonempty: "trim s \<noteq> [] \<Longrightarrow> s \<noteq> []"
  by (auto simp: trim_def)

lemma update_first_map:
  "(\<And>x. g (f x) = g x) \<Longrightarrow> map g (update_first P f xs) = map g xs"
  by (induction xs) auto

lemma filter_update_first:
  "(\<And>x. P (f x) = P x) \<Longrightarrow> length (filter P (update_first P f xs)) = length (filter P xs)"
  by (induction xs) auto

lemma find_update_first:
  "find P xs = Some c \<Longrightarrow> P (f c) \<Longrightarrow> find P (update_first P f xs) = Some (f c)"
  by (induction xs) (auto split: if_splits)

lemma find_update_first_split:
  "find P xs = Some c \<Longrightarrow>
     \<exists>pre post. xs = pre @ c # post \<and> list_all (\<lambda>x. \<not> P x) pre
                \<and> update_first P f xs = pre @ f c # post"
proof (induction xs)
  case Nil
  then show ?case by simp
next
  case (Cons x xs)
  show ?case
  proof (cases "P x")
    case True
    with Cons.prems have "x = c" by simp
    with True show ?thesis by (intro exI [of _ "[]"] exI [of _ xs]) simp
  next
    case False
    with Cons.prems have "find P xs = Some c" by simp
    from Cons.IH [OF this] obtain pre post where
      "xs = pre @ c # post" "list_all (\<lambda>x. \<not> P x) pre" "update_first P f xs = pre @ f c # post"
      by blast
    with False show ?thesis
      by (intro exI [of _ "x # pre"] exI [of _ post]) simp
  qed
qed

lemma find_weaken:
  "find P xs = Some c \<Longrightarrow> (\<And>x. P x \<Longrightarrow> Q x) \<Longrightarrow> \<exists>c'. find Q xs = Some c'"
  by (induction xs) (auto split: if_splits)

subsection \<open>Saving a message and upserting a conversation\<close>

lemma pre_save_with_Messages:
  "pre_save_with e found st m = (st1, m1) \<Longrightarrow>
     Messages st1 = Messages st \<and> sender m1 = sender m \<and> receiver m1 = receiver m
     \<and> content m1 = content m \<and> attachments m1 = attachments m \<and> m_id m1 = m_id m
     \<and> timestamp m1 = timestamp m \<and> read m1 = read m \<and> readAt m1 = readAt m"
  by (auto simp: pre_save_with_def split: if_splits option.splits)

lemma Message_save_with_Inr:
  "Message_save_with isValid e found st m = Inr (st1, m1) \<Longrightarrow>
     Message_validate isValid m \<and> Messages st1 = Messages st @ [m1] \<and> sender m1 = sender m \<and> receiver m1 = receiver m
     \<and> content m1 = content m \<and> attachments m1 = attachments m \<and> m_id m1 = m_id m
     \<and> timestamp m1 = timestamp m \<and> read m1 = read m \<and> readAt m1 = readAt m"
  unfolding Message_save_with_def
  by (cases "pre_save_with e found st m") (auto split: if_splits dest!: pre_save_with_Messages)

lemma Message_save_with_valid:
  "Message_validate isValid m \<Longrightarrow> \<exists>st1 m1. Message_save_with isValid e found st m = Inr (st1, m1)"
  unfolding Message_save_with_def
  by (cases "pre_save_with e found st m") auto

lemma Message_save_with_invalid:
  "\<not> Message_validate isValid m \<Longrightarrow> Message_save_with isValid e found st m = Inl ValidationError"
  unfolding Message_save_with_def by simp

lemma pre_save_with_Conversations:
  "pre_save_with e found st m = (st1, m1) \<Longrightarrow>
     \<exists>new. map (\<lambda>c. (c_id c, participants c, unreadCount c)) (Conversations st1)
            = map (\<lambda>c. (c_id c, participants c, unreadCount c)) (Conversations st)
              @ map (\<lambda>i. (i, [sender m, receiver m], 0)) new"
proof (cases "conversation m = None \<and> sender m \<noteq> [] \<and> receiver m \<noteq> [] \<and> found = None")
  case True
  assume "pre_save_with e found st m = (st1, m1)"
  with True have "Conversations st1 = Conversations st
      @ [new_Conversation (new_conversation_id e) (now e) [sender m, receiver m]]"
    by (auto simp: pre_save_with_def)
  then show ?thesis
    by (intro exI [of _ "[new_conversation_id e]"]) (simp add: new_Conversation_def)
next
  case False
  assume "pre_save_with e found st m = (st1, m1)"
  with False have "Conversations st1 = Conversations st"
    by (auto simp: pre_save_with_def split: if_splits option.splits)
  then show ?thesis
    by (intro exI [of _ "[]"]) simp
qed

lemma Message_save_with_Conversations:
  assumes "Message_save_with isValid e found st m = Inr (st1, m1)"
  shows "\<exists>new. map (\<lambda>c. (c_id c, participants c, unreadCount c)) (Conversations st1)
            = map (\<lambda>c. (c_id c, participants c, unreadCount c)) (Conversations st)
              @ map (\<lambda>i. (i, [sender m, receiver m], 0)) new"
proof -
  obtain st0 m0 where h: "pre_save_with e found st m = (st0, m0)"
    by (cases "pre_save_with e found st m")
  with assms have "Conversations st1 = Conversations st0"
    by (auto simp: Message_save_with_def split: if_splits)
  with pre_save_with_Conversations [OF h] show ?thesis by simp
qed

lemma Message_save_with_conversation_set:
  assumes "Message_save_with isValid e found st m = Inr (st1, m1)" "conversation m = Some c"
  shows "Conversations st1 = Conversations st"
  using assms by (auto simp: Message_save_with_def pre_save_with_def split: if_splits)

lemma upsert_Messages:
  "Messages (fst (findOneAndUpdate_upsert e q pv fr ins st)) = Messages st"
  by (simp add: findOneAndUpdate_upsert_def split: option.splits)

lemma upsert_Conversations:
  "\<exists>new. map (\<lambda>c. (c_id c, participants c, unreadCount c))
            (Conversations (fst (findOneAndUpdate_upsert e q pv fr ins st)))
          = map (\<lambda>c. (c_id c, participants c, unreadCount c)) (Conversations st)
            @ map (\<lambda>i. (i, ins, 0)) new"
proof (cases "find (all_size2 q) (Conversations st)")
  case None
  then show ?thesis
    by (intro exI [of _ "[upsert_conversation_id e]"])
       (simp add: findOneAndUpdate_upsert_def set_last_def new_Conversation_def)
next
  case (Some c)
  then show ?thesis
    by (intro exI [of _ "[]"])
       (simp add: findOneAndUpdate_upsert_def update_first_map set_last_def)
qed

lemma all_size2_participantsSorted: "all_size2 (participantsSorted a b) = all_size2 [a, b]"
  by (rule ext) (auto simp add: all_size2_def participantsSorted_def list_all_iff)

lemma all_size2_set_last: "all_size2 q (set_last pv t fr c) = all_size2 q c"
  by (simp add: all_size2_def set_last_def)

text \<open>The upsert on its own keeps the conversation of a pair unique: if at most one stored
  conversation matches the query, exactly one does afterwards.\<close>

lemma upsert_keeps_pair_unique:
  assumes "length (filter (all_size2 q) (Conversations st)) \<le> 1"
    and "all_size2 q (new_Conversation (upsert_conversation_id e) (now e) ins)"
  shows "length (filter (all_size2 q) (Conversations (fst (findOneAndUpdate_upsert e q pv fr ins st)))) = 1"
proof (cases "find (all_size2 q) (Conversations st)")
  case None
  then have "filter (all_size2 q) (Conversations st) = []"
    by (auto simp: find_None_iff filter_empty_conv)
  with None assms(2) show ?thesis
    by (simp add: findOneAndUpdate_upsert_def all_size2_set_last)
next
  case (Some c)
  then have "c \<in> set (Conversations st)" "all_size2 q c"
    by (auto simp: find_Some_iff)
  then have "filter (all_size2 q) (Conversations st) \<noteq> []"
    by (auto simp: filter_empty_conv)
  with assms(1) have "length (filter (all_size2 q) (Conversations st)) = 1"
    by (cases "filter (all_size2 q) (Conversations st)") auto
  with Some show ?thesis
    by (simp add: findOneAndUpdate_upsert_def filter_update_first all_size2_set_last)
qed

subsection \<open>The direct-send handler\<close>

lemma sendMessage_validates:
  assumes "\<not> (trim c = [] \<and> atts = [])" "isValid r" "isValid u"
  shows "Message_validate isValid (new_Message e None u r c atts)"
  using assms by (auto simp: Message_validate_def new_Message_def dest: trim_nonempty)

lemma on_sendMessage_with_reject:
  assumes "falsy (p_receiver p) \<or> (trim (content_of p) = [] \<and> attachments_of p = [])"
  shows "on_sendMessage_with isValid e found userId p srv
         = (srv, [(Socket, Error ''receiver and either content or attachments is required'')])"
  using assms unfolding on_sendMessage_with_def by (simp del: One_nat_def)

lemma on_sendMessage_with_malformed:
  assumes "\<not> falsy (p_receiver p)" "\<not> (trim (content_of p) = [] \<and> attachments_of p = [])"
    "\<not> isValid (receiver_of p)"
  shows "on_sendMessage_with isValid e found userId p srv
         = (srv, [(Socket, Error ''Invalid receiver ID format'')])"
  using assms unfolding on_sendMessage_with_def by simp

lemma on_sendMessage_with_sender_invalid:
  assumes "\<not> falsy (p_receiver p)" "\<not> (trim (content_of p) = [] \<and> attachments_of p = [])"
    "isValid (receiver_of p)" "\<not> isValid userId"
  shows "on_sendMessage_with isValid e found userId p srv
         = (srv, [(Socket, Error ''Failed to send message'')])"
proof -
  have "\<not> Message_validate isValid
          (new_Message e None userId (receiver_of p) (content_of p) (attachments_of p))"
    using assms(4) by (simp add: Message_validate_def new_Message_def)
  then have s: "Message_save_with isValid e found (db srv)
          (new_Message e None userId (receiver_of p) (content_of p) (attachments_of p))
        = Inl ValidationError"
    by (rule Message_save_with_invalid)
  have c1: "(falsy (p_receiver p) \<or> trim (content_of p) = [] \<and> attachments_of p = []) = False"
    using assms by auto
  have c2: "(\<not> isValid (receiver_of p)) = False"
    using assms by simp
  show ?thesis
    unfolding on_sendMessage_with_def c1 c2 s
    by (simp only: if_False sum.case)
qed

lemma on_sendMessage_with_accept:
  assumes "\<not> falsy (p_receiver p)" "\<not> (trim (content_of p) = [] \<and> attachments_of p = [])"
    "isValid (receiver_of p)" "isValid userId"
  shows "\<exists>st1 m. Message_save_with isValid e found (db srv)
                    (new_Message e None userId (receiver_of p) (content_of p) (attachments_of p)) = Inr (st1, m)
          \<and> on_sendMessage_with isValid e found userId p srv
            = (srv\<lparr>db := fst (findOneAndUpdate_upsert e (participantsSorted userId (receiver_of p))
                               (lastMessagePreview (content_of p) (attachments_of p)) userId
                               [userId, receiver_of p] st1)\<rparr>,
               sendMessage_emits userId (receiver_of p) (onlineUsers srv (receiver_of p)) m
                 (snd (findOneAndUpdate_upsert e (participantsSorted userId (receiver_of p))
                               (lastMessagePreview (content_of p) (attachments_of p)) userId
                               [userId, receiver_of p] st1))
                 (lastMessagePreview (content_of p) (attachments_of p)))"
proof -
  have "Message_validate isValid (new_Message e None userId (receiver_of p) (content_of p) (attachments_of p))"
    using assms by (intro sendMessage_validates) auto
  then obtain st1 m where s: "Message_save_with isValid e found (db srv)
        (new_Message e None userId (receiver_of p) (content_of p) (attachments_of p)) = Inr (st1, m)"
    using Message_save_with_valid by blast
  have c1: "(falsy (p_receiver p) \<or> trim (content_of p) = [] \<and> attachments_of p = []) = False"
    using assms by auto
  have c2: "(\<not> isValid (receiver_of p)) = False"
    using assms by simp
  show ?thesis
    apply (rule exI[of _ st1], rule exI[of _ m])
    unfolding on_sendMessage_with_def c1 c2 s
    by (simp only: if_False sum.case prod.case case_prod_beta simp_thms fst_conv snd_conv)
qed

lemma on_sendMessage_with_cases:
  "(\<exists>msg. on_sendMessage_with isValid e found userId p srv = (srv, [(Socket, Error msg)]))
   \<or> (\<exists>st1 m. Message_save_with isValid e found (db srv)
                    (new_Message e None userId (receiver_of p) (content_of p) (attachments_of p)) = Inr (st1, m)
          \<and> on_sendMessage_with isValid e found userId p srv
            = (srv\<lparr>db := fst (findOneAndUpdate_upsert e (participantsSorted userId (receiver_of p))
                               (lastMessagePreview (content_of p) (attachments_of p)) userId
                               [userId, receiver_of p] st1)\<rparr>,
               sendMessage_emits userId (receiver_of p) (onlineUsers srv (receiver_of p)) m
                 (snd (findOneAndUpdate_upsert e (participantsSorted userId (receiver_of p))
                               (lastMessagePreview (content_of p) (attachments_of p)) userId
                               [userId, receiver_of p] st1))
                 (lastMessagePreview (content_of p) (attachments_of p))))"
proof (cases "Message_save_with isValid e found (db srv)
                    (new_Message e None userId (receiver_of p) (content_of p) (attachments_of p))")
  case (Inl a)
  then show ?thesis
    unfolding on_sendMessage_with_def by simp
next
  case (Inr b)
  obtain st1 m where "b = (st1, m)" by (cases b)
  with Inr show ?thesis
    unfolding on_sendMessage_with_def by (simp add: case_prod_beta)
qed

lemma MessageSaved_in_sendMessage_emits:
  "(Socket, MessageSaved m) \<in> set (sendMessage_emits u r h m c pv)"
  by (simp add: sendMessage_emits_def Let_def split: option.splits)

lemma sendMessage_emits_handle:
  "(ToSocket h, ReceiveMessage m) \<in> set (sendMessage_emits u r (Some h) m c pv)
   \<and> (ToSocket h, NewMessage (c_id c) m) \<in> set (sendMessage_emits u r (Some h) m c pv)
   \<and> (ToRoom r, NewMessage (c_id c) m) \<in> set (sendMessage_emits u r (Some h) m c pv)"
  by (simp add: sendMessage_emits_def Let_def)

lemma sendMessage_emits_handle_only:
  "(ToRoom r, ReceiveMessage m) \<notin> set (sendMessage_emits u r (Some h) m c pv)"
  by (simp add: sendMessage_emits_def Let_def)

lemma on_sendMessage_accept_Messages:
  assumes "\<not> falsy (p_receiver p)" "\<not> (trim (content_of p) = [] \<and> attachments_of p = [])"
    "isValid (receiver_of p)" "isValid userId"
  shows "\<exists>m c. Messages (db (fst (on_sendMessage isValid e userId p srv))) = Messages (db srv) @ [m]
          \<and> sender m = userId \<and> receiver m = receiver_of p
          \<and> content m = content_of p \<and> attachments m = attachments_of p
          \<and> snd (on_sendMessage isValid e userId p srv)
              = sendMessage_emits userId (receiver_of p) (onlineUsers srv (receiver_of p)) m c
                  (lastMessagePreview (content_of p) (attachments_of p))"
proof -
  let ?found = "findOne_participants (db srv) [userId, receiver_of p]"
  from on_sendMessage_with_accept [OF assms, of e ?found srv]
  obtain st1 m where
    s: "Message_save_with isValid e ?found (db srv)
          (new_Message e None userId (receiver_of p) (content_of p) (attachments_of p)) = Inr (st1, m)"
    and r: "on_sendMessage isValid e userId p srv
            = (srv\<lparr>db := fst (findOneAndUpdate_upsert e (participantsSorted userId (receiver_of p))
                               (lastMessagePreview (content_of p) (attachments_of p)) userId
                               [userId, receiver_of p] st1)\<rparr>,
               sendMessage_emits userId (receiver_of p) (onlineUsers srv (receiver_of p)) m
                 (snd (findOneAndUpdate_upsert e (participantsSorted userId (receiver_of p))
                               (lastMessagePreview (content_of p) (attachments_of p)) userId
                               [userId, receiver_of p] st1))
                 (lastMessagePreview (content_of p) (attachments_of p)))"
    unfolding on_sendMessage_def by blast
  from Message_save_with_Inr [OF s]
  have m: "Messages st1 = Messages (db srv) @ [m]" "sender m = userId" "receiver m = receiver_of p"
    "content m = content_of p" "attachments m = attachments_of p"
    by (simp_all add: new_Message_def)
  show ?thesis
    apply (rule exI [of _ m])
    apply (rule exI [of _ "snd (findOneAndUpdate_upsert e (participantsSorted userId (receiver_of p))
                               (lastMessagePreview (content_of p) (attachments_of p)) userId
                               [userId, receiver_of p] st1)"])
    unfolding r using m by (simp add: upsert_Messages)
qed

lemma on_sendMessage_frame:
  "\<exists>new. map (\<lambda>c. (c_id c, participants c, unreadCount c))
            (Conversations (db (fst (on_sendMessage isValid e userId p srv))))
          = map (\<lambda>c. (c_id c, participants c, unreadCount c)) (Conversations (db srv))
            @ map (\<lambda>i. (i, [userId, receiver_of p], 0)) new"
proof -
  let ?found = "findOne_participants (db srv) [userId, receiver_of p]"
  let ?k = "\<lambda>c. (c_id c, participants c, unreadCount c)"
  from on_sendMessage_with_cases [of isValid e ?found userId p srv]
  show ?thesis
  proof
    assume "\<exists>msg. on_sendMessage_with isValid e ?found userId p srv = (srv, [(Socket, Error msg)])"
    then show ?thesis
      unfolding on_sendMessage_def by (intro exI [of _ "[]"]) auto
  next
    assume "\<exists>st1 m. Message_save_with isValid e ?found (db srv)
                    (new_Message e None userId (receiver_of p) (content_of p) (attachments_of p)) = Inr (st1, m)
          \<and> on_sendMessage_with isValid e ?found userId p srv
            = (srv\<lparr>db := fst (findOneAndUpdate_upsert e (participantsSorted userId (receiver_of p))
                               (lastMessagePreview (content_of p) (attachments_of p)) userId
                               [userId, receiver_of p] st1)\<rparr>,
               sendMessage_emits userId (receiver_of p) (onlineUsers srv (receiver_of p)) m
                 (snd (findOneAndUpdate_upsert e (participantsSorted userId (receiver_of p))
                               (lastMessagePreview (content_of p) (attachments_of p)) userId
                               [userId, receiver_of p] st1))
                 (lastMessagePreview (content_of p) (attachments_of p)))"
    then obtain st1 m where
      s: "Message_save_with isValid e ?found (db srv)
            (new_Message e None userId (receiver_of p) (content_of p) (attachments_of p)) = Inr (st1, m)"
      and r: "db (fst (on_sendMessage isValid e userId p srv))
            = fst (findOneAndUpdate_upsert e (participantsSorted userId (receiver_of p))
                               (lastMessagePreview (content_of p) (attachments_of p)) userId
                               [userId, receiver_of p] st1)"
      unfolding on_sendMessage_def by auto
    from Message_save_with_Conversations [OF s] obtain new1 where
      n1: "map ?k (Conversations st1) = map ?k (Conversations (db srv))
             @ map (\<lambda>i. (i, [userId, receiver_of p], 0)) new1"
      by (auto simp: new_Message_def)
    from upsert_Conversations [of e "participantsSorted userId (receiver_of p)"
        "lastMessagePreview (content_of p) (attachments_of p)" userId "[userId, receiver_of p]" st1]
    obtain new2 where
      n2: "map ?k (Conversations (db (fst (on_sendMessage isValid e userId p srv))))
           = map ?k (Conversations st1) @ map (\<lambda>i. (i, [userId, receiver_of p], 0)) new2"
      unfolding r by blast
    show ?thesis
      by (intro exI [of _ "new1 @ new2"]) (simp add: n1 n2)
  qed
qed

subsection \<open>The conversation-dialect handler\<close>

lemma on_newMessage_cases:
  "(\<exists>msg. on_newMessage isValid e userId p srv = (srv, [(Socket, Error msg)]))
   \<or> (\<exists>conv recipient st1 m.
         findById (db srv) (conversationId_of p) = Some conv
       \<and> Message_save isValid e (db srv)
            (new_Message e (Some (conversationId_of p)) userId recipient (trim (text_of p)) []) = Inr (st1, m)
       \<and> on_newMessage isValid e userId p srv
          = (srv\<lparr>db := findByIdAndUpdate (conversationId_of p)
                          (inc_unread (trim (text_of p)) userId (now e)) st1\<rparr>,
             newMessage_emits userId recipient (onlineUsers srv recipient) m
               (conversationId_of p) (trim (text_of p)) (now e)))"
  unfolding on_newMessage_def
  by (simp split: option.splits sum.splits prod.splits) blast

lemma on_newMessage_success:
  assumes "(Socket, MessageSaved m) \<in> set (snd (on_newMessage isValid e userId p srv))"
  shows "\<exists>pre c post.
           Conversations (db srv) = pre @ c # post
         \<and> list_all (\<lambda>x. c_id x \<noteq> conversationId_of p) pre
         \<and> c_id c = conversationId_of p
         \<and> Conversations (db (fst (on_newMessage isValid e userId p srv)))
             = pre @ c\<lparr>lastMessage := Some (trim (text_of p)), lastMessageFrom := Some userId,
                       lastMessageAt := now e, unreadCount := unreadCount c + 1\<rparr> # post"
proof -
  from on_newMessage_cases [of isValid e userId p srv] assms
  obtain conv recipient st1 m1 where
    f: "findById (db srv) (conversationId_of p) = Some conv"
    and s: "Message_save isValid e (db srv)
            (new_Message e (Some (conversationId_of p)) userId recipient (trim (text_of p)) []) = Inr (st1, m1)"
    and r: "on_newMessage isValid e userId p srv
          = (srv\<lparr>db := findByIdAndUpdate (conversationId_of p)
                          (inc_unread (trim (text_of p)) userId (now e)) st1\<rparr>,
             newMessage_emits userId recipient (onlineUsers srv recipient) m1
               (conversationId_of p) (trim (text_of p)) (now e))"
    by auto
  from s have c1: "Conversations st1 = Conversations (db srv)"
    unfolding Message_save_def
    by (rule Message_save_with_conversation_set) (simp add: new_Message_def)
  from f have "find (\<lambda>c. c_id c = conversationId_of p) (Conversations (db srv)) = Some conv"
    by (simp add: findById_def)
  from find_update_first_split [OF this, of "inc_unread (trim (text_of p)) userId (now e)"]
  obtain pre post where
    sp: "Conversations (db srv) = pre @ conv # post"
      "list_all (\<lambda>x. c_id x \<noteq> conversationId_of p) pre"
      "update_first (\<lambda>c. c_id c = conversationId_of p) (inc_unread (trim (text_of p)) userId (now e))
          (Conversations (db srv)) = pre @ inc_unread (trim (text_of p)) userId (now e) conv # post"
    by blast
  from f have cid: "c_id conv = conversationId_of p"
    by (auto simp: findById_def dest: find_Some_iff [THEN iffD1])
  show ?thesis
    apply (rule exI [of _ pre], rule exI [of _ conv], rule exI [of _ post])
    using sp cid by (simp add: r findByIdAndUpdate_def c1 inc_unread_def)
qed

subsection \<open>The socket manager\<close>

lemma cleanupSocket_fields:
  "socket (cleanupSocket m) = None" "reconnectTimer (cleanupSocket m) = None"
  "connectionStatus (cleanupSocket m) = DISCONNECTED"
  "reconnectAttempts (cleanupSocket m) = reconnectAttempts m"
  "token (cleanupSocket m) = token m" "SOCKET_BASE_URL (cleanupSocket m) = SOCKET_BASE_URL m"
  "socketEventListeners (cleanupSocket m) = socketEventListeners m"
  by (simp_all add: cleanupSocket_def Let_def split: option.splits)

lemma initializeSocket_attempts:
  "reconnectAttempts (initializeSocket m) = reconnectAttempts m"
  by (simp add: initializeSocket_def Let_def cleanupSocket_fields split: option.splits)

lemma initializeSocket_token:
  "\<not> falsy (token m) \<Longrightarrow>
     socket (initializeSocket m) \<noteq> None \<and> connectionStatus (initializeSocket m) = CONNECTING"
  by (simp add: initializeSocket_def Let_def split: option.splits)

lemma tryFallbackUrls_fields:
  "reconnectAttempts (snd (tryFallbackUrls r m)) = reconnectAttempts m"
  "token (snd (tryFallbackUrls r m)) = token m"
  "socket (snd (tryFallbackUrls r m)) = socket m"
  "reconnectTimer (snd (tryFallbackUrls r m)) = reconnectTimer m"
  by (simp_all add: tryFallbackUrls_def split: option.splits)

lemma reapplyEventListeners_attempts:
  "reconnectAttempts (reapplyEventListeners m) = reconnectAttempts m"
  by (simp add: reapplyEventListeners_def split: option.splits)

lemma reapplyEventListeners_fields:
  "connectionStatus (reapplyEventListeners m) = connectionStatus m"
  "reconnectTimer (reapplyEventListeners m) = reconnectTimer m"
  "socketEventListeners (reapplyEventListeners m) = socketEventListeners m"
  by (simp_all add: reapplyEventListeners_def split: option.splits)

lemma attemptReconnect_le:
  "reconnectAttempts m \<le> MAX_RECONNECT_ATTEMPTS \<Longrightarrow>
     reconnectAttempts (attemptReconnect r m) \<le> MAX_RECONNECT_ATTEMPTS"
  using tryFallbackUrls_fields(1) [of r m]
  by (cases "tryFallbackUrls r m")
     (auto simp: attemptReconnect_def initializeSocket_attempts cleanupSocket_fields split: bool.splits)

lemma on_connect_attempts: "reconnectAttempts (on_connect m) = 0"
  by (simp add: on_connect_def Let_def reapplyEventListeners_attempts split: option.splits)

lemma step_le:
  "reconnectAttempts m \<le> MAX_RECONNECT_ATTEMPTS \<Longrightarrow>
     reconnectAttempts (step r m ev) \<le> MAX_RECONNECT_ATTEMPTS"
proof (cases ev)
  case Connect
  assume "reconnectAttempts m \<le> MAX_RECONNECT_ATTEMPTS"
  with Connect show ?thesis
    by (simp add: on_connect_attempts split: option.splits)
next
  case ConnectError
  assume a: "reconnectAttempts m \<le> MAX_RECONNECT_ATTEMPTS"
  obtain b m1 where t: "tryFallbackUrls r (m\<lparr>connectionStatus := ERROR\<rparr>) = (b, m1)"
    by (cases "tryFallbackUrls r (m\<lparr>connectionStatus := ERROR\<rparr>)")
  with tryFallbackUrls_fields(1) [of r "m\<lparr>connectionStatus := ERROR\<rparr>"] a
  have "reconnectAttempts m1 \<le> MAX_RECONNECT_ATTEMPTS" by simp
  with ConnectError a t show ?thesis
    by (auto simp: on_connect_error_def initializeSocket_attempts attemptReconnect_le split: option.splits bool.splits)
next
  case (Disconnect reason)
  assume a: "reconnectAttempts m \<le> MAX_RECONNECT_ATTEMPTS"
  with Disconnect show ?thesis
    by (auto simp: on_socket_disconnect_def Let_def intro!: attemptReconnect_le split: option.splits)
next
  case Timer
  assume a: "reconnectAttempts m \<le> MAX_RECONNECT_ATTEMPTS"
  with Timer show ?thesis
    by (auto simp: on_timer_def initializeSocket_attempts split: option.splits bool.splits)
qed

lemma run_Nil: "run r m [] = m"
  by (simp add: run_def)

lemma run_Cons: "run r m (x # xs) = run r (step r m x) xs"
  by (simp add: run_def)

lemma run_append: "run r m (xs @ ys) = run r (run r m xs) ys"
  by (simp add: run_def)

lemma run_le:
  "reconnectAttempts m \<le> MAX_RECONNECT_ATTEMPTS \<Longrightarrow>
     reconnectAttempts (run r m evs) \<le> MAX_RECONNECT_ATTEMPTS"
  unfolding run_def
  by (induction evs arbitrary: m) (simp_all add: step_le)

lemma step_idle:
  "socket m = None \<Longrightarrow> \<not> timerPending m \<Longrightarrow> step r m ev = m"
  by (cases ev) (auto simp: timerPending_def split: option.splits bool.splits)

lemma foldl_socket_off:
  "handlers (foldl (\<lambda>s l. socket_off (event l) s) s ls)
     = filter (\<lambda>(e', h). e' \<notin> event ` set ls) (handlers s)"
  by (induction ls arbitrary: s) (auto simp: socket_off_def intro: filter_cong)

lemma foldl_socket_on:
  "handlers (foldl (\<lambda>s l. socket_on (event l) (Callback (callback l)) s) s ls)
     = handlers s @ map (\<lambda>l. (event l, Callback (callback l))) ls"
  by (induction ls arbitrary: s) (auto simp: socket_on_def)

lemma foldl_socket_off_connected:
  "connected (foldl (\<lambda>s l. socket_off (event l) s) s ls) = connected s"
  by (induction ls arbitrary: s) (auto simp: socket_off_def)

lemma foldl_socket_on_connected:
  "connected (foldl (\<lambda>s l. socket_on (event l) (Callback (callback l)) s) s ls) = connected s"
  by (induction ls arbitrary: s) (auto simp: socket_on_def)

lemma reapplyEventListeners_socket:
  assumes "socket m = Some s"
  shows "\<exists>s'. socket (reapplyEventListeners m) = Some s' \<and> connected s' = connected s
           \<and> handlers s' = filter (\<lambda>(e', h). e' \<notin> event ` set (socketEventListeners m)) (handlers s)
                              @ map (\<lambda>l. (event l, Callback (callback l))) (socketEventListeners m)"
  using assms
  by (simp add: reapplyEventListeners_def foldl_socket_on foldl_socket_off
        foldl_socket_on_connected foldl_socket_off_connected)

text \<open>
  What the connect handler does when it runs. If the socket still carries the manager's
  connect handler, a \<^verbatim>\<open>connect\<close> resets the attempt counter, clears the timer, sets the status
  to \<open>CONNECTED\<close>, and leaves the socket with exactly the registry's entries attached for
  the events the registry mentions, each entry once and in the registry's order; listeners
  of other events are untouched. Since \<^verbatim>\<open>off(event)\<close> removes every listener of the event, the
  manager's own handlers are among the listeners removed when the registry mentions
  \<^verbatim>\<open>connect\<close>, \<^verbatim>\<open>disconnect\<close> or \<^verbatim>\<open>connect_error\<close>.
\<close>

lemma connect_resets_and_reattaches:
  assumes "socket m = Some s" "(''connect'', OnConnect) \<in> set (handlers s)"
  shows "reconnectAttempts (step r m Connect) = 0
       \<and> connectionStatus (step r m Connect) = CONNECTED
       \<and> reconnectTimer (step r m Connect) = None
       \<and> socketEventListeners (step r m Connect) = socketEventListeners m
       \<and> (\<exists>s'. socket (step r m Connect) = Some s' \<and> connected s'
             \<and> filter (\<lambda>(e', h). e' \<in> event ` set (socketEventListeners m)) (handlers s')
                 = map (\<lambda>l. (event l, Callback (callback l))) (socketEventListeners m)
             \<and> filter (\<lambda>(e', h). e' \<notin> event ` set (socketEventListeners m)) (handlers s')
                 = filter (\<lambda>(e', h). e' \<notin> event ` set (socketEventListeners m)) (handlers s))"
proof -
  let ?m1 = "m\<lparr>socket := Some (s\<lparr>connected := True\<rparr>)\<rparr>"
  let ?m2 = "?m1\<lparr>connectionStatus := CONNECTED, reconnectAttempts := 0\<rparr>"
  let ?m3 = "case reconnectTimer ?m2 of Some t \<Rightarrow> ?m2\<lparr>reconnectTimer := None\<rparr> | None \<Rightarrow> ?m2"
  have st: "step r m Connect = reapplyEventListeners ?m3"
    using assms by (simp add: on_connect_def Let_def)
  have m3: "reconnectAttempts ?m3 = 0" "connectionStatus ?m3 = CONNECTED" "reconnectTimer ?m3 = None"
    "socketEventListeners ?m3 = socketEventListeners m"
    by (simp_all split: option.splits)
  have "socket ?m3 = Some (s\<lparr>connected := True\<rparr>)" by (simp split: option.splits)
  from reapplyEventListeners_socket [OF this]
  obtain s' where s': "socket (reapplyEventListeners ?m3) = Some s'" "connected s'"
    "handlers s' = filter (\<lambda>(e', h). e' \<notin> event ` set (socketEventListeners m)) (handlers s)
                              @ map (\<lambda>l. (event l, Callback (callback l))) (socketEventListeners m)"
    unfolding m3 by auto
  have f1: "filter (\<lambda>(e', h). e' \<in> event ` set (socketEventListeners m)) (handlers s')
            = map (\<lambda>l. (event l, Callback (callback l))) (socketEventListeners m)"
    unfolding s'(3) by (auto simp: filter_empty_conv filter_id_conv)
  have f2: "filter (\<lambda>(e', h). e' \<notin> event ` set (socketEventListeners m)) (handlers s')
            = filter (\<lambda>(e', h). e' \<notin> event ` set (socketEventListeners m)) (handlers s)"
    unfolding s'(3) by (auto simp: filter_empty_conv intro: filter_cong)
  show ?thesis
    unfolding st using s'(1,2) f1 f2
    by (simp only: reapplyEventListeners_attempts reapplyEventListeners_fields m3) simp
qed

subsection \<open>The sample data\<close>

lemma isHex24_alice: "isHex24 alice" by (simp add: isHex24_def alice_def)

lemma isHex24_bob: "isHex24 bob" by (simp add: isHex24_def bob_def)

lemma alice_nonempty: "alice \<noteq> []" by (simp add: alice_def)

lemma bob_nonempty: "bob \<noteq> []" by (simp add: bob_def)

lemma u1_malformed: "\<not> isHex24 ''u1''"
  by (simp add: isHex24_def)

lemma alice_neq_bob: "alice \<noteq> bob" by (simp add: alice_def bob_def)

lemma server1_bob: "onlineUsers server1 bob = Some 7"
  by (simp add: server1_def)

lemma newMessage_sample_ack:
  "(Socket, MessageSaved msg2) \<in> set (snd (on_newMessage isHex24 env1 alice
            \<lparr>p_conversationId = Some ''64b0000000000000000000c0'', p_text = Some (of_ascii '' on my way'' @ [0xA0])\<rparr> server1))"
  by (simp add: on_newMessage_def falsy_def text_of_def conversationId_of_def trim_def is_space_def
      isHex24_def findById_def server1_def conv1_def alice_neq_bob Message_save_def
      Message_save_with_def Message_validate_def new_Message_def alice_def bob_def
      pre_save_with_def findByIdAndUpdate_def newMessage_emits_def env1_def inc_unread_def
      formattedMessage_def msg2_def of_ascii_def)

lemma tryFallbackUrls_all_down: "tryFallbackUrls all_down m = (False, m)"
proof -
  have "find (\<lambda>u. u \<noteq> SOCKET_BASE_URL m \<and> all_down u) FALLBACK_URLS = None"
    by (simp add: find_None_iff all_down_def)
  then show ?thesis by (simp add: tryFallbackUrls_def)
qed

lemma initializeSocket_manager0: "initializeSocket manager0 = connecting 0"
  by (simp add: initializeSocket_def manager0_def connecting_def falsy_def)

lemma failed_round:
  assumes "n < 5"
  shows "run all_down (connecting n) [ConnectError, Timer] = connecting (Suc n)"
proof -
  have 1: "step all_down (connecting n) ConnectError
           = (connecting n)\<lparr>connectionStatus := ERROR, reconnectAttempts := Suc n,
                reconnectTimer := Some (RECONNECT_INTERVAL * 2 ^ n, True)\<rparr>"
    using assms
    by (simp add: connecting_def manager0_def on_connect_error_def tryFallbackUrls_all_down
          attemptReconnect_def MAX_RECONNECT_ATTEMPTS_def)
  have 2: "step all_down ((connecting n)\<lparr>connectionStatus := ERROR, reconnectAttempts := Suc n,
                reconnectTimer := Some (RECONNECT_INTERVAL * 2 ^ n, True)\<rparr>) Timer
           = connecting (Suc n)"
    by (simp add: connecting_def manager0_def on_timer_def initializeSocket_def falsy_def
          cleanupSocket_def)
  show ?thesis
    by (simp only: run_Cons run_Nil 1 2)
qed

lemma last_failure:
  "step all_down (connecting 5) ConnectError = manager0\<lparr>reconnectAttempts := 5\<rparr>"
  by (simp add: connecting_def manager0_def on_connect_error_def tryFallbackUrls_all_down
        attemptReconnect_def MAX_RECONNECT_ATTEMPTS_def cleanupSocket_def)

lemma run_failures:
  "run all_down (initializeSocket manager0) failures = manager0\<lparr>reconnectAttempts := 5\<rparr>"
proof -
  have f: "failures = [ConnectError, Timer] @ [ConnectError, Timer] @ [ConnectError, Timer]
             @ [ConnectError, Timer] @ [ConnectError, Timer] @ [ConnectError]"
    by (simp add: failures_def)
  have s: "connecting (Suc (Suc (Suc (Suc (Suc 0))))) = connecting 5"
    by (simp add: eval_nat_numeral)
  have r: "\<And>n. n < 5 \<Longrightarrow> run all_down (connecting n) [ConnectError, Timer] = connecting (Suc n)"
    by (rule failed_round)
  have "run all_down (connecting 0) failures = run all_down (connecting 5) [ConnectError]"
    unfolding f run_append by (simp add: r eval_nat_numeral del: run_Cons)
  then show ?thesis
    unfolding initializeSocket_manager0 by (simp only: run_Cons run_Nil last_failure)
qed

lemma C7_sample_premises:
  "reconnectAttempts (connecting 2) < MAX_RECONNECT_ATTEMPTS"
  "reconnectAttempts (connecting 2) = 2"
  "MAX_RECONNECT_ATTEMPTS \<le> reconnectAttempts (connecting 5)"
  "fst (tryFallbackUrls all_up (connecting 5))"
  "\<not> falsy (token (connecting 5))"
  "\<not> fst (tryFallbackUrls all_down (connecting 5))"
proof -
  show "reconnectAttempts (connecting 2) < MAX_RECONNECT_ATTEMPTS"
    and "reconnectAttempts (connecting 2) = 2"
    and "MAX_RECONNECT_ATTEMPTS \<le> reconnectAttempts (connecting 5)"
    and "\<not> falsy (token (connecting 5))"
    by (simp_all add: connecting_def manager0_def MAX_RECONNECT_ATTEMPTS_def falsy_def)
  show "fst (tryFallbackUrls all_up (connecting 5))"
    by (simp add: tryFallbackUrls_def FALLBACK_URLS_def all_up_def connecting_def manager0_def)
  show "\<not> fst (tryFallbackUrls all_down (connecting 5))"
    by (simp add: tryFallbackUrls_all_down)
qed

lemma connect_resets_and_reattaches_instance:
  "socket (addSocketListener ''newMessage'' 1 ''l1'' (connecting 3))
     = Some \<lparr>sock_url = ''http://localhost:5000'', connected = False,
              handlers = [(''connect'', OnConnect), (''disconnect'', OnDisconnect),
                          (''connect_error'', OnConnectError), (''newMessage'', Callback 1)]\<rparr>
   \<and> reconnectAttempts (addSocketListener ''newMessage'' 1 ''l1'' (connecting 3)) = 3
   \<and> reconnectAttempts (step all_down (addSocketListener ''newMessage'' 1 ''l1'' (connecting 3)) Connect) = 0
   \<and> connectionStatus (step all_down (addSocketListener ''newMessage'' 1 ''l1'' (connecting 3)) Connect)
       = CONNECTED
   \<and> (\<exists>s'. socket (step all_down (addSocketListener ''newMessage'' 1 ''l1'' (connecting 3)) Connect) = Some s'
          \<and> connected s'
          \<and> filter (\<lambda>(e', h). e' \<in> {''newMessage''}) (handlers s') = [(''newMessage'', Callback 1)])"
proof -
  let ?m = "addSocketListener ''newMessage'' 1 ''l1'' (connecting 3)"
  let ?s = "\<lparr>sock_url = ''http://localhost:5000'', connected = False,
              handlers = [(''connect'', OnConnect), (''disconnect'', OnDisconnect),
                          (''connect_error'', OnConnectError), (''newMessage'', Callback 1)]\<rparr>"
  have a: "socket ?m = Some ?s" "(''connect'', OnConnect) \<in> set (handlers ?s)"
    "reconnectAttempts ?m = 3"
    "socketEventListeners ?m = [\<lparr>event = ''newMessage'', callback = 1, listener_id = ''l1''\<rparr>]"
    by (simp_all add: addSocketListener_def connecting_def manager0_def socket_on_def)
  from connect_resets_and_reattaches [OF a(1,2), of all_down]
  show ?thesis
    unfolding a(4) using a(1,3) by (simp del: step.simps) blast
qed

section \<open>The claims\<close>

text \<open>
  C1. Every path that creates the Conversation of a pair is to do so by one conditional
  upsert, so that no pair ever gets two Conversation documents. The direct-send handler's
  own \<^verbatim>\<open>findOneAndUpdate\<close> is such an upsert (and keeps a pair unique, see
  \<open>upsert_keeps_pair_unique\<close>). The pre-save hook of Message is not: it runs at every save
  of a message that has no conversation yet (so also inside the direct-send handler, before
  the upsert), asks \<^verbatim>\<open>findOne\<close> and inserts in a second store call; the HTTP \<^verbatim>\<open>POST /\<close> route
  does the same. Here alice and bob send each other a first message at the same time: both
  hooks find nothing and both insert, and the store ends with two conversations that match
  the pair (first and second conjunct). Run on its own, a first direct-send gets its
  conversation from the hook's insert (it carries the hook's identifier), not from the
  upsert (third conjunct).
\<close>

theorem C1_interleaved_first_contact_duplicates:
  "map (\<lambda>c. (c_id c, participants c))
     (Conversations (db (two_sends_interleaved isHex24
            env0 alice \<lparr>p_receiver = Some bob, p_content = Some (of_ascii ''hi''), p_attachments = None\<rparr>
            env1 bob \<lparr>p_receiver = Some alice, p_content = Some (of_ascii ''hello''), p_attachments = None\<rparr>
            server0)))
   = [(new_conversation_id env0, [alice, bob]), (new_conversation_id env1, [bob, alice])]
   \<and> length (filter (all_size2 [alice, bob])
        (Conversations (db (two_sends_interleaved isHex24
            env0 alice \<lparr>p_receiver = Some bob, p_content = Some (of_ascii ''hi''), p_attachments = None\<rparr>
            env1 bob \<lparr>p_receiver = Some alice, p_content = Some (of_ascii ''hello''), p_attachments = None\<rparr>
            server0)))) = 2
   \<and> map (\<lambda>c. (c_id c, participants c))
        (Conversations (db (fst (on_sendMessage isHex24
            env0 alice \<lparr>p_receiver = Some bob, p_content = Some (of_ascii ''hi''), p_attachments = None\<rparr>
            server0))))
     = [(new_conversation_id env0, [alice, bob])]"
  by (simp add: two_sends_interleaved_def on_sendMessage_def on_sendMessage_with_def falsy_def
        receiver_of_def content_of_def attachments_of_def isHex24_alice isHex24_bob
        alice_nonempty bob_nonempty alice_neq_bob alice_neq_bob [symmetric]
        Message_save_with_def Message_validate_def new_Message_def pre_save_with_def
        findOne_participants_def server0_def findOneAndUpdate_upsert_def
        all_size2_participantsSorted all_size2_def new_Conversation_def set_last_def
        env0_def env1_def lastMessagePreview_def trim_def is_space_def of_ascii_def Let_def)

text \<open>
  C2. A direct-send event whose receiver is missing or malformed, or whose trimmed content
  and attachments are both empty, gets a validation error on the calling connection and
  leaves the server state as it was. Every other event (for instance one with attachments
  and no content) appends one Message with the caller as sender, the payload's receiver,
  content and attachments, and is acknowledged with it, provided the caller's own identity
  is a well-formed identifier. When it is not, the Message schema rejects the sender: the
  save fails, nothing is written and the caller gets the send-failure error. The instance
  after the witness is such a caller sending a well-formed event.
\<close>

theorem C2_direct_send_validation:
  "if falsy (p_receiver p) \<or> \<not> isValid (receiver_of p)
      \<or> (trim (content_of p) = [] \<and> attachments_of p = [])
   then on_sendMessage isValid e userId p srv
          = (srv, [(Socket, Error ''receiver and either content or attachments is required'')])
        \<or> on_sendMessage isValid e userId p srv
          = (srv, [(Socket, Error ''Invalid receiver ID format'')])
   else if isValid userId
   then (\<exists>m. Messages (db (fst (on_sendMessage isValid e userId p srv))) = Messages (db srv) @ [m]
            \<and> sender m = userId \<and> receiver m = receiver_of p
            \<and> content m = content_of p \<and> attachments m = attachments_of p
            \<and> (Socket, MessageSaved m) \<in> set (snd (on_sendMessage isValid e userId p srv)))
   else on_sendMessage isValid e userId p srv
          = (srv, [(Socket, Error ''Failed to send message'')])"
proof (cases "falsy (p_receiver p) \<or> (trim (content_of p) = [] \<and> attachments_of p = [])")
  case True
  then show ?thesis
    unfolding on_sendMessage_def using on_sendMessage_with_reject [OF True] by auto
next
  case False
  note nf = this
  then have a: "\<not> falsy (p_receiver p)" "\<not> (trim (content_of p) = [] \<and> attachments_of p = [])"
    by auto
  show ?thesis
  proof (cases "isValid (receiver_of p)")
    case False
    then show ?thesis
      unfolding on_sendMessage_def using on_sendMessage_with_malformed [of p isValid] nf by auto
  next
    case True
    note rv = this
    show ?thesis
    proof (cases "isValid userId")
      case False
      from on_sendMessage_with_sender_invalid [OF a rv False]
      show ?thesis
        unfolding on_sendMessage_def using nf rv False by auto
    next
      case True
      from on_sendMessage_accept_Messages [OF a rv True, of e srv]
      obtain m c where "Messages (db (fst (on_sendMessage isValid e userId p srv))) = Messages (db srv) @ [m]"
        "sender m = userId" "receiver m = receiver_of p" "content m = content_of p"
        "attachments m = attachments_of p"
        "snd (on_sendMessage isValid e userId p srv)
                = sendMessage_emits userId (receiver_of p) (onlineUsers srv (receiver_of p)) m c
                    (lastMessagePreview (content_of p) (attachments_of p))"
        by blast
      then show ?thesis
        using nf rv True MessageSaved_in_sendMessage_emits by auto
    qed
  qed
qed

theorem C2_direct_send_validation_witness:
  "isHex24 alice
   \<and> (\<exists>m. Messages (db (fst (on_sendMessage isHex24 env0 alice
               \<lparr>p_receiver = Some bob, p_content = None, p_attachments = Some [''photo.png'']\<rparr> server0)))
            = Messages (db server0) @ [m]
          \<and> sender m = alice \<and> receiver m = bob \<and> content m = [] \<and> attachments m = [''photo.png''])
   \<and> on_sendMessage isHex24 env0 alice
         \<lparr>p_receiver = Some bob, p_content = Some [0xA0], p_attachments = None\<rparr> server0
       = (server0, [(Socket, Error ''receiver and either content or attachments is required'')])"
proof -
  let ?p = "\<lparr>p_receiver = Some bob, p_content = None, p_attachments = Some [''photo.png'']\<rparr>"
  have c: "(falsy (p_receiver ?p) \<or> \<not> isHex24 (receiver_of ?p)
            \<or> (trim (content_of ?p) = [] \<and> attachments_of ?p = [])) = False"
    by (simp add: falsy_def receiver_of_def attachments_of_def isHex24_bob bob_nonempty)
  have v: "isHex24 alice = True"
    by (simp add: isHex24_alice)
  from C2_direct_send_validation [of ?p isHex24 env0 alice server0]
  have "\<exists>m. Messages (db (fst (on_sendMessage isHex24 env0 alice ?p server0))) = Messages (db server0) @ [m]
          \<and> sender m = alice \<and> receiver m = receiver_of ?p
          \<and> content m = content_of ?p \<and> attachments m = attachments_of ?p
          \<and> (Socket, MessageSaved m) \<in> set (snd (on_sendMessage isHex24 env0 alice ?p server0))"
    unfolding c v by (simp only: if_False if_True)
  moreover have "on_sendMessage isHex24 env0 alice
         \<lparr>p_receiver = Some bob, p_content = Some [0xA0], p_attachments = None\<rparr> server0
       = (server0, [(Socket, Error ''receiver and either content or attachments is required'')])"
    by (simp add: on_sendMessage_def on_sendMessage_with_def falsy_def bob_nonempty content_of_def
          attachments_of_def trim_def is_space_def)
  ultimately show ?thesis
    using isHex24_alice by (auto simp: receiver_of_def content_of_def attachments_of_def)
qed

theorem C2_malformed_caller_counterexample:
  "\<not> falsy (Some bob) \<and> isHex24 bob \<and> trim (of_ascii ''hello'') \<noteq> []
   \<and> on_sendMessage isHex24 env0 ''u1''
         \<lparr>p_receiver = Some bob, p_content = Some (of_ascii ''hello''), p_attachments = None\<rparr> server0
       = (server0, [(Socket, Error ''Failed to send message'')])"
  by (simp add: on_sendMessage_def on_sendMessage_with_def falsy_def bob_nonempty isHex24_bob
        content_of_def attachments_of_def receiver_of_def trim_def is_space_def of_ascii_def
        Message_save_with_def Message_validate_def new_Message_def u1_malformed)

text \<open>
  C3. When a participant P fetches a conversation's history, every message of
  that conversation not sent by P that was still unread is marked \<open>read\<close> with
  \<open>readAt = now\<close>; every other message is left as it was, so afterwards every message of
  the conversation not sent by P is read; and the conversation's \<open>unreadCount\<close> is 0. The
  update is filtered on \<^verbatim>\<open>read: false\<close>: a message that was already read keeps its
  \<open>readAt\<close>, which is still \<open>None\<close> when it was marked by the HTTP mark-read route, as the
  instance after the theorem shows.
\<close>

theorem C3_fetch_marks_unread:
  assumes "isValid conversationId" "isValid userId"
    and "find (\<lambda>c. c_id c = conversationId \<and> userId \<in> set (participants c)) (Conversations st) = Some conv"
  shows "Messages (fst (get_conversation_messages isValid e userId conversationId st))
           = map (\<lambda>m. if conversation m = Some conversationId \<and> sender m \<noteq> userId \<and> \<not> read m
                       then m\<lparr>read := True, readAt := Some (now e)\<rparr> else m) (Messages st)
       \<and> list_all (\<lambda>m. if conversation m = Some conversationId \<and> sender m \<noteq> userId then read m else True)
            (Messages (fst (get_conversation_messages isValid e userId conversationId st)))
       \<and> map_option unreadCount
            (findById (fst (get_conversation_messages isValid e userId conversationId st)) conversationId)
           = Some 0"
proof -
  let ?st1 = "st\<lparr>Messages :=
                  updateMany (\<lambda>m. conversation m = Some conversationId \<and> sender m \<noteq> userId \<and> read m = False)
                    (\<lambda>m. m\<lparr>read := True, readAt := Some (now e)\<rparr>) (Messages st)\<rparr>"
  have r: "fst (get_conversation_messages isValid e userId conversationId st)
           = findByIdAndUpdate conversationId (\<lambda>c. c\<lparr>unreadCount := 0\<rparr>) ?st1"
    using assms by (simp add: get_conversation_messages_def)
  have m: "Messages (fst (get_conversation_messages isValid e userId conversationId st))
           = map (\<lambda>m. if conversation m = Some conversationId \<and> sender m \<noteq> userId \<and> \<not> read m
                       then m\<lparr>read := True, readAt := Some (now e)\<rparr> else m) (Messages st)"
    unfolding r by (simp add: findByIdAndUpdate_def updateMany_def)
  have l: "list_all (\<lambda>m. if conversation m = Some conversationId \<and> sender m \<noteq> userId then read m else True)
            (Messages (fst (get_conversation_messages isValid e userId conversationId st)))"
    unfolding m by (auto simp add: list_all_iff)
  from find_weaken [OF assms(3), of "\<lambda>c. c_id c = conversationId"]
  obtain c' where c': "find (\<lambda>c. c_id c = conversationId) (Conversations st) = Some c'"
    by auto
  then have "c_id c' = conversationId"
    by (auto simp: find_Some_iff)
  with find_update_first [OF c', of "\<lambda>c. c\<lparr>unreadCount := 0\<rparr>"]
  have "findById (fst (get_conversation_messages isValid e userId conversationId st)) conversationId
        = Some (c'\<lparr>unreadCount := 0\<rparr>)"
    unfolding r by (simp add: findById_def findByIdAndUpdate_def)
  then show ?thesis using m l by simp
qed

theorem C3_fetch_marks_unread_witness:
  "isHex24 ''64b0000000000000000000c0'' \<and> isHex24 alice
   \<and> find (\<lambda>c. c_id c = ''64b0000000000000000000c0'' \<and> alice \<in> set (participants c))
        (Conversations (db server1)) = Some conv1
   \<and> Messages (fst (get_conversation_messages isHex24 env1 alice ''64b0000000000000000000c0'' (db server1)))
       = [msg1\<lparr>read := True, readAt := Some 2000\<rparr>]
   \<and> map_option unreadCount
        (findById (fst (get_conversation_messages isHex24 env1 alice ''64b0000000000000000000c0'' (db server1)))
           ''64b0000000000000000000c0'') = Some 0"
proof -
  have a: "isHex24 ''64b0000000000000000000c0''"
    "find (\<lambda>c. c_id c = ''64b0000000000000000000c0'' \<and> alice \<in> set (participants c))
        (Conversations (db server1)) = Some conv1"
    by (simp_all add: isHex24_def server1_def conv1_def)
  have b: "sender msg1 \<noteq> alice" "conversation msg1 = Some ''64b0000000000000000000c0''" "\<not> read msg1"
    "Messages (db server1) = [msg1]" "now env1 = 2000"
    using alice_neq_bob by (auto simp add: msg1_def server1_def env1_def)
  from C3_fetch_marks_unread [of isHex24 "''64b0000000000000000000c0''" alice "db server1" conv1 env1]
    a isHex24_alice
  show ?thesis by (simp add: b)
qed

theorem C3_already_read_counterexample:
  "Messages (fst (mark_read isHex24 (Some [''64b0000000000000000000a0'']) (db server1)))
     = [msg1\<lparr>read := True\<rparr>]
   \<and> alice \<in> set (participants conv1) \<and> c_id conv1 = ''64b0000000000000000000c0''
   \<and> conversation msg1 = Some ''64b0000000000000000000c0'' \<and> sender msg1 \<noteq> alice
   \<and> Messages (fst (get_conversation_messages isHex24 env1 alice ''64b0000000000000000000c0''
                  (fst (mark_read isHex24 (Some [''64b0000000000000000000a0'']) (db server1)))))
     = [msg1\<lparr>read := True\<rparr>]
   \<and> readAt (msg1\<lparr>read := True\<rparr>) = None"
  by (simp add: mark_read_def get_conversation_messages_def server1_def msg1_def conv1_def
        isHex24_def updateMany_def findByIdAndUpdate_def alice_def bob_def)

text \<open>
  C4. A valid direct-send event whose recipient has a handle in the presence registry is
  delivered on both channels: the saved message is emitted to the direct handle (as
  \<^verbatim>\<open>receiveMessage\<close> and as \<^verbatim>\<open>newMessage\<close>) and, in addition, broadcast to the recipient's room
  (as \<^verbatim>\<open>newMessage\<close>). The \<^verbatim>\<open>receiveMessage\<close> event itself is sent to the room only when the
  registry has no handle.
\<close>

theorem C4_direct_handle_and_room:
  assumes "\<not> falsy (p_receiver p)" "isValid (receiver_of p)"
    "\<not> (trim (content_of p) = [] \<and> attachments_of p = [])"
    "isValid userId"
    "onlineUsers srv (receiver_of p) = Some h"
  shows "\<exists>m cid. Messages (db (fst (on_sendMessage isValid e userId p srv))) = Messages (db srv) @ [m]
           \<and> sender m = userId \<and> receiver m = receiver_of p
           \<and> (ToSocket h, ReceiveMessage m) \<in> set (snd (on_sendMessage isValid e userId p srv))
           \<and> (ToSocket h, NewMessage cid m) \<in> set (snd (on_sendMessage isValid e userId p srv))
           \<and> (ToRoom (receiver_of p), NewMessage cid m) \<in> set (snd (on_sendMessage isValid e userId p srv))
           \<and> (ToRoom (receiver_of p), ReceiveMessage m) \<notin> set (snd (on_sendMessage isValid e userId p srv))"
proof -
  from on_sendMessage_accept_Messages [OF assms(1) assms(3) assms(2) assms(4), of e srv]
  obtain m c where
    m: "Messages (db (fst (on_sendMessage isValid e userId p srv))) = Messages (db srv) @ [m]"
      "sender m = userId" "receiver m = receiver_of p"
    and out: "snd (on_sendMessage isValid e userId p srv)
              = sendMessage_emits userId (receiver_of p) (onlineUsers srv (receiver_of p)) m c
                  (lastMessagePreview (content_of p) (attachments_of p))"
    by blast
  show ?thesis
    apply (rule exI [of _ m], rule exI [of _ "c_id c"])
    unfolding out assms(5) using m sendMessage_emits_handle sendMessage_emits_handle_only by simp
qed

theorem C4_direct_handle_and_room_witness:
  "onlineUsers server1 bob = Some 7
   \<and> (\<exists>m cid. Messages (db (fst (on_sendMessage isHex24 env0 alice
                   \<lparr>p_receiver = Some bob, p_content = Some (of_ascii ''hi''), p_attachments = None\<rparr> server1)))
               = Messages (db server1) @ [m]
           \<and> sender m = alice \<and> receiver m = bob
           \<and> (ToSocket 7, ReceiveMessage m) \<in> set (snd (on_sendMessage isHex24 env0 alice
                   \<lparr>p_receiver = Some bob, p_content = Some (of_ascii ''hi''), p_attachments = None\<rparr> server1))
           \<and> (ToSocket 7, NewMessage cid m) \<in> set (snd (on_sendMessage isHex24 env0 alice
                   \<lparr>p_receiver = Some bob, p_content = Some (of_ascii ''hi''), p_attachments = None\<rparr> server1))
           \<and> (ToRoom bob, NewMessage cid m) \<in> set (snd (on_sendMessage isHex24 env0 alice
                   \<lparr>p_receiver = Some bob, p_content = Some (of_ascii ''hi''), p_attachments = None\<rparr> server1))
           \<and> (ToRoom bob, ReceiveMessage m) \<notin> set (snd (on_sendMessage isHex24 env0 alice
                   \<lparr>p_receiver = Some bob, p_content = Some (of_ascii ''hi''), p_attachments = None\<rparr> server1)))"
proof -
  let ?p = "\<lparr>p_receiver = Some bob, p_content = Some (of_ascii ''hi''), p_attachments = None\<rparr>"
  have r: "receiver_of ?p = bob" by (simp add: receiver_of_def)
  have a: "\<not> falsy (p_receiver ?p)" "isHex24 (receiver_of ?p)"
    "\<not> (trim (content_of ?p) = [] \<and> attachments_of ?p = [])"
    "onlineUsers server1 (receiver_of ?p) = Some 7"
    by (simp_all add: falsy_def bob_nonempty receiver_of_def isHex24_bob server1_bob content_of_def
          trim_def is_space_def of_ascii_def)
  from C4_direct_handle_and_room [of ?p isHex24 alice server1 7 env0] a isHex24_alice
  show ?thesis unfolding r using server1_bob by simp
qed

text \<open>
  C5. A successful conversation-dialect send (one acknowledged with \<^verbatim>\<open>messageSaved\<close>) changes
  exactly the stored conversation with the given id: its \<open>unreadCount\<close> goes up by one and
  its preview, sender and timestamp fields are set; every other conversation is as before.
  A direct-send leaves the id, the participants and the \<open>unreadCount\<close> of every stored
  conversation as they were; a conversation it creates has the pair as participants and
  the default \<open>unreadCount\<close> 0.
\<close>

theorem C5_unreadCount_by_dialect:
  "((Socket, MessageSaved m) \<in> set (snd (on_newMessage isValid e userId p srv)) \<longrightarrow>
      (\<exists>pre c post.
           Conversations (db srv) = pre @ c # post
         \<and> list_all (\<lambda>x. c_id x \<noteq> conversationId_of p) pre
         \<and> c_id c = conversationId_of p
         \<and> Conversations (db (fst (on_newMessage isValid e userId p srv)))
             = pre @ c\<lparr>lastMessage := Some (trim (text_of p)), lastMessageFrom := Some userId,
                       lastMessageAt := now e, unreadCount := unreadCount c + 1\<rparr> # post))
   \<and> (\<exists>new. map (\<lambda>c. (c_id c, participants c, unreadCount c))
                (Conversations (db (fst (on_sendMessage isValid e userId q srv))))
              = map (\<lambda>c. (c_id c, participants c, unreadCount c)) (Conversations (db srv))
                @ map (\<lambda>i. (i, [userId, receiver_of q], 0)) new)"
  using on_newMessage_success [of m isValid e userId p srv]
    on_sendMessage_frame [of isValid e userId q srv]
  by blast

theorem C5_unreadCount_by_dialect_witness:
  "(Socket, MessageSaved msg2) \<in> set (snd (on_newMessage isHex24 env1 alice
            \<lparr>p_conversationId = Some ''64b0000000000000000000c0'', p_text = Some (of_ascii '' on my way'' @ [0xA0])\<rparr> server1))
   \<and> (\<exists>pre c post.
           Conversations (db server1) = pre @ c # post
         \<and> c_id c = ''64b0000000000000000000c0''
         \<and> Conversations (db (fst (on_newMessage isHex24 env1 alice
              \<lparr>p_conversationId = Some ''64b0000000000000000000c0'', p_text = Some (of_ascii '' on my way'' @ [0xA0])\<rparr> server1)))
             = pre @ c\<lparr>lastMessage := Some (of_ascii ''on my way''), lastMessageFrom := Some alice,
                       lastMessageAt := 2000, unreadCount := unreadCount c + 1\<rparr> # post)
   \<and> (\<exists>new. map (\<lambda>c. (c_id c, participants c, unreadCount c))
                (Conversations (db (fst (on_sendMessage isHex24 env1 alice
                   \<lparr>p_receiver = Some bob, p_content = Some (of_ascii ''hi''), p_attachments = None\<rparr> server1))))
              = map (\<lambda>c. (c_id c, participants c, unreadCount c)) (Conversations (db server1))
                @ map (\<lambda>i. (i, [alice, bob], 0)) new)"
proof -
  let ?p = "\<lparr>p_conversationId = Some ''64b0000000000000000000c0'', p_text = Some (of_ascii '' on my way'' @ [0xA0])\<rparr>"
  let ?q = "\<lparr>p_receiver = Some bob, p_content = Some (of_ascii ''hi''), p_attachments = None\<rparr>"
  have t: "trim (text_of ?p) = of_ascii ''on my way''" "conversationId_of ?p = ''64b0000000000000000000c0''"
    "now env1 = 2000" "receiver_of ?q = bob"
    by (simp_all add: text_of_def trim_def is_space_def conversationId_of_def env1_def receiver_of_def
          of_ascii_def)
  from C5_unreadCount_by_dialect [of msg2 isHex24 env1 alice ?p server1 ?q] newMessage_sample_ack
  show ?thesis unfolding t by blast
qed

text \<open>
  C6. A conversation-dialect send whose conversation id matches no stored conversation
  leaves the server state unchanged (no Message is written) and emits exactly one error to
  the sender. The error is the not-found error when the payload passes the required-field
  check and the id is well formed; a payload with a missing id or a blank text gets the
  validation error instead, and a malformed id the send-failure error of the catch branch.
  The instance after the witness is a send with an unknown id and a blank text: it gets
  the validation error, not the not-found error.
\<close>

theorem C6_unknown_conversation:
  assumes "findById (db srv) (conversationId_of p) = None"
  shows "fst (on_newMessage isValid e userId p srv) = srv
       \<and> snd (on_newMessage isValid e userId p srv)
           = [(Socket, Error
                (if falsy (p_conversationId p) \<or> falsy (p_text p) \<or> trim (text_of p) = []
                 then ''Conversation ID and text are required''
                 else if \<not> isValid (conversationId_of p) then ''Failed to send message''
                 else ''Conversation not found''))]"
  using assms unfolding on_newMessage_def by simp

theorem C6_unknown_conversation_witness:
  "findById (db server1) (conversationId_of
       \<lparr>p_conversationId = Some ''64b0000000000000000000c9'', p_text = Some (of_ascii ''hi'')\<rparr>) = None
   \<and> on_newMessage isHex24 env1 alice
       \<lparr>p_conversationId = Some ''64b0000000000000000000c9'', p_text = Some (of_ascii ''hi'')\<rparr> server1
     = (server1, [(Socket, Error ''Conversation not found'')])"
proof -
  let ?p = "\<lparr>p_conversationId = Some ''64b0000000000000000000c9'', p_text = Some (of_ascii ''hi'')\<rparr>"
  have f: "findById (db server1) (conversationId_of ?p) = None"
    by (simp add: findById_def server1_def conv1_def conversationId_of_def)
  have c: "(falsy (p_conversationId ?p) \<or> falsy (p_text ?p) \<or> trim (text_of ?p) = []) = False"
    "(\<not> isHex24 (conversationId_of ?p)) = False"
    by (simp_all add: falsy_def text_of_def trim_def is_space_def conversationId_of_def isHex24_def
          of_ascii_def)
  from C6_unknown_conversation [OF f, of isHex24 env1 alice] f
  show ?thesis unfolding c by (simp add: prod_eq_iff)
qed

theorem C6_blank_text_counterexample:
  "findById (db server1) (conversationId_of
       \<lparr>p_conversationId = Some ''64b0000000000000000000c9'', p_text = Some [0x20, 0xA0]\<rparr>) = None
   \<and> on_newMessage isHex24 env1 alice
       \<lparr>p_conversationId = Some ''64b0000000000000000000c9'', p_text = Some [0x20, 0xA0]\<rparr> server1
     = (server1, [(Socket, Error ''Conversation ID and text are required'')])
   \<and> ''Conversation ID and text are required'' \<noteq> ''Conversation not found''"
  by (simp add: on_newMessage_def findById_def server1_def conv1_def conversationId_of_def
        falsy_def text_of_def trim_def is_space_def)

text \<open>
  C7. Below the cap, \<^verbatim>\<open>attemptReconnect\<close> counts one more attempt and sets a
  timer whose delay is the base interval times \<open>2 ^ (n - 1)\<close> for attempt \<open>n\<close>. The counter
  never exceeds the cap of 5, whatever reaches the manager. At the cap the fallback URLs
  are probed once more: if one answers (and a token is stored) the counter is reset and a
  new socket is connecting; if none answers the socket is cleaned up and no timer is set,
  and from then on no transport or timer event changes the manager: a further connection
  attempt needs a new call from the application. The instance after the witness is the
  history of failures that ends there.
\<close>

theorem C7_backoff_cap_and_give_up:
  "(reconnectAttempts m < MAX_RECONNECT_ATTEMPTS \<longrightarrow>
       reconnectAttempts (attemptReconnect r m) = reconnectAttempts m + 1
     \<and> reconnectTimer (attemptReconnect r m)
         = Some (RECONNECT_INTERVAL * 2 ^ (reconnectAttempts (attemptReconnect r m) - 1), True))
   \<and> (reconnectAttempts m \<le> MAX_RECONNECT_ATTEMPTS \<longrightarrow>
         reconnectAttempts (run r m evs) \<le> MAX_RECONNECT_ATTEMPTS)
   \<and> (MAX_RECONNECT_ATTEMPTS \<le> reconnectAttempts m \<and> fst (tryFallbackUrls r m) \<and> \<not> falsy (token m) \<longrightarrow>
         reconnectAttempts (attemptReconnect r m) = 0
       \<and> socket (attemptReconnect r m) \<noteq> None
       \<and> connectionStatus (attemptReconnect r m) = CONNECTING)
   \<and> (MAX_RECONNECT_ATTEMPTS \<le> reconnectAttempts m \<and> \<not> fst (tryFallbackUrls r m) \<longrightarrow>
         socket (attemptReconnect r m) = None
       \<and> reconnectTimer (attemptReconnect r m) = None
       \<and> connectionStatus (attemptReconnect r m) = DISCONNECTED
       \<and> (\<forall>ev. step r (attemptReconnect r m) ev = attemptReconnect r m))"
proof (intro conjI impI)
  assume "reconnectAttempts m < MAX_RECONNECT_ATTEMPTS"
  then show "reconnectAttempts (attemptReconnect r m) = reconnectAttempts m + 1"
    and "reconnectTimer (attemptReconnect r m)
         = Some (RECONNECT_INTERVAL * 2 ^ (reconnectAttempts (attemptReconnect r m) - 1), True)"
    by (simp_all add: attemptReconnect_def)
next
  assume "reconnectAttempts m \<le> MAX_RECONNECT_ATTEMPTS"
  then show "reconnectAttempts (run r m evs) \<le> MAX_RECONNECT_ATTEMPTS"
    by (rule run_le)
next
  assume a: "MAX_RECONNECT_ATTEMPTS \<le> reconnectAttempts m \<and> fst (tryFallbackUrls r m) \<and> \<not> falsy (token m)"
  obtain m1 where t: "tryFallbackUrls r m = (True, m1)"
    using a by (cases "tryFallbackUrls r m") auto
  with tryFallbackUrls_fields(2) [of r m] a have tk: "\<not> falsy (token (m1\<lparr>reconnectAttempts := 0\<rparr>))"
    by simp
  have r: "attemptReconnect r m = initializeSocket (m1\<lparr>reconnectAttempts := 0\<rparr>)"
    using a t by (simp add: attemptReconnect_def)
  show "reconnectAttempts (attemptReconnect r m) = 0"
    and "socket (attemptReconnect r m) \<noteq> None"
    and "connectionStatus (attemptReconnect r m) = CONNECTING"
    unfolding r using initializeSocket_token [OF tk] by (simp_all add: initializeSocket_attempts)
next
  assume a: "MAX_RECONNECT_ATTEMPTS \<le> reconnectAttempts m \<and> \<not> fst (tryFallbackUrls r m)"
  obtain m1 where t: "tryFallbackUrls r m = (False, m1)"
    using a by (cases "tryFallbackUrls r m") auto
  have r: "attemptReconnect r m = cleanupSocket (m1\<lparr>connectionStatus := ERROR\<rparr>)"
    using a t by (simp add: attemptReconnect_def)
  show s: "socket (attemptReconnect r m) = None"
    and tm: "reconnectTimer (attemptReconnect r m) = None"
    and "connectionStatus (attemptReconnect r m) = DISCONNECTED"
    unfolding r by (simp_all add: cleanupSocket_fields)
  from tm have "\<not> timerPending (attemptReconnect r m)"
    by (simp add: timerPending_def)
  with s show "\<forall>ev. step r (attemptReconnect r m) ev = attemptReconnect r m"
    by (simp add: step_idle)
qed

theorem C7_backoff_cap_and_give_up_witness:
  "reconnectAttempts (connecting 2) < MAX_RECONNECT_ATTEMPTS
   \<and> reconnectAttempts (attemptReconnect all_down (connecting 2)) = 3
   \<and> reconnectTimer (attemptReconnect all_down (connecting 2)) = Some (4000, True)
   \<and> MAX_RECONNECT_ATTEMPTS \<le> reconnectAttempts (connecting 5)
   \<and> fst (tryFallbackUrls all_up (connecting 5)) \<and> \<not> falsy (token (connecting 5))
   \<and> reconnectAttempts (attemptReconnect all_up (connecting 5)) = 0
   \<and> connectionStatus (attemptReconnect all_up (connecting 5)) = CONNECTING
   \<and> \<not> fst (tryFallbackUrls all_down (connecting 5))
   \<and> socket (attemptReconnect all_down (connecting 5)) = None
   \<and> reconnectTimer (attemptReconnect all_down (connecting 5)) = None
   \<and> connectionStatus (attemptReconnect all_down (connecting 5)) = DISCONNECTED"
proof -
  from C7_backoff_cap_and_give_up [of "connecting 2" all_down "[]"] C7_sample_premises(1,2)
  have a: "reconnectAttempts (attemptReconnect all_down (connecting 2)) = 3"
    "reconnectTimer (attemptReconnect all_down (connecting 2)) = Some (4000, True)"
    by (simp_all add: RECONNECT_INTERVAL_def)
  from C7_backoff_cap_and_give_up [of "connecting 5" all_up "[]"] C7_sample_premises(3,4,5)
  have b: "reconnectAttempts (attemptReconnect all_up (connecting 5)) = 0"
    "connectionStatus (attemptReconnect all_up (connecting 5)) = CONNECTING"
    by simp_all
  from C7_backoff_cap_and_give_up [of "connecting 5" all_down "[]"] C7_sample_premises(3,6)
  have c: "socket (attemptReconnect all_down (connecting 5)) = None"
    "reconnectTimer (attemptReconnect all_down (connecting 5)) = None"
    "connectionStatus (attemptReconnect all_down (connecting 5)) = DISCONNECTED"
    by simp_all
  show ?thesis
    using a b c C7_sample_premises by simp
qed

theorem C7_gives_up_counterexample:
  "run all_down (initializeSocket manager0) failures = manager0\<lparr>reconnectAttempts := 5\<rparr>
   \<and> socket (manager0\<lparr>reconnectAttempts := 5\<rparr>) = None
   \<and> reconnectTimer (manager0\<lparr>reconnectAttempts := 5\<rparr>) = None
   \<and> step all_up (manager0\<lparr>reconnectAttempts := 5\<rparr>) Connect = manager0\<lparr>reconnectAttempts := 5\<rparr>
   \<and> step all_up (manager0\<lparr>reconnectAttempts := 5\<rparr>) ConnectError = manager0\<lparr>reconnectAttempts := 5\<rparr>
   \<and> step all_up (manager0\<lparr>reconnectAttempts := 5\<rparr>) (Disconnect ''transport close'')
       = manager0\<lparr>reconnectAttempts := 5\<rparr>
   \<and> step all_up (manager0\<lparr>reconnectAttempts := 5\<rparr>) Timer = manager0\<lparr>reconnectAttempts := 5\<rparr>"
  using run_failures by (simp add: manager0_def)

text \<open>
  C8. Every \<^verbatim>\<open>connect\<close> is to reset the attempt counter and to leave every registered listener
  attached once. The manager's connect handler does both (\<open>connect_resets_and_reattaches\<close>),
  but \<^verbatim>\<open>reapplyEventListeners\<close> detaches that very handler when a listener was added for the
  event \<^verbatim>\<open>connect\<close>. Here the application adds such a listener; the first \<^verbatim>\<open>connect\<close> leaves
  the socket without the manager's connect handler (last conjunct); the connection then
  drops (\<^verbatim>\<open>transport close\<close>, one attempt counted and a timer set) and the transport
  reconnects the same socket. After this second \<^verbatim>\<open>connect\<close> the socket is connected, but the
  counter is still 1, the status still \<open>DISCONNECTED\<close> and the timer still pending.
\<close>

theorem C8_connect_listener_detaches_manager:
  "reconnectAttempts (run all_down (addSocketListener ''connect'' 1 ''l1'' (initializeSocket manager0))
       [Connect, Disconnect ''transport close'', Connect]) = 1
   \<and> connectionStatus (run all_down (addSocketListener ''connect'' 1 ''l1'' (initializeSocket manager0))
       [Connect, Disconnect ''transport close'', Connect]) = DISCONNECTED
   \<and> reconnectTimer (run all_down (addSocketListener ''connect'' 1 ''l1'' (initializeSocket manager0))
       [Connect, Disconnect ''transport close'', Connect]) = Some (1000, True)
   \<and> map_option connected (socket (run all_down (addSocketListener ''connect'' 1 ''l1'' (initializeSocket manager0))
       [Connect, Disconnect ''transport close'', Connect])) = Some True
   \<and> map_option handlers (socket (run all_down (addSocketListener ''connect'' 1 ''l1'' (initializeSocket manager0))
       [Connect])) = Some [(''disconnect'', OnDisconnect), (''connect_error'', OnConnectError),
                           (''connect'', Callback 1)]"
  by code_simp

text \<open>
  C9. The disconnect cleanup deletes the presence entry by user id, whichever connection's
  handle is stored. When a user opens a second connection (which overwrites the entry) and
  the first connection then closes, the second connection is still open and in the user's
  room, but the registry has no entry for the user.
\<close>

theorem C9_stale_disconnect_removes_live_entry:
  assumes "h1 \<noteq> h2"
  shows "onlineUsers (on_connection h2 u (on_connection h1 u srv)) u = Some h2
       \<and> onlineUsers (on_disconnect h1 u (on_connection h2 u (on_connection h1 u srv))) u = None
       \<and> (h2, u) \<in> set (rooms (on_disconnect h1 u (on_connection h2 u (on_connection h1 u srv))))"
  using assms by (simp add: on_connection_def on_disconnect_def)

theorem C9_stale_disconnect_witness:
  "(1::nat) \<noteq> 2
   \<and> onlineUsers (on_disconnect 1 ''u1'' (on_connection 2 ''u1'' (on_connection 1 ''u1''
        \<lparr>db = \<lparr>Messages = [], Conversations = []\<rparr>, onlineUsers = Map.empty, rooms = []\<rparr>))) ''u1'' = None
   \<and> (2, ''u1'') \<in> set (rooms (on_disconnect 1 ''u1'' (on_connection 2 ''u1'' (on_connection 1 ''u1''
        \<lparr>db = \<lparr>Messages = [], Conversations = []\<rparr>, onlineUsers = Map.empty, rooms = []\<rparr>))))"
  using C9_stale_disconnect_removes_live_entry [of 1 2 "''u1''"
      "\<lparr>db = \<lparr>Messages = [], Conversations = []\<rparr>, onlineUsers = Map.empty, rooms = []\<rparr>"]
  by simp

text \<open>
  C10. The HTTP mark-read route sets \<open>read\<close> on the messages whose id is listed and changes
  nothing else: every message keeps its \<open>readAt\<close> (\<open>None\<close> for a message never read). The
  socket \<^verbatim>\<open>markRead\<close> event sets both \<open>read\<close> and \<open>readAt = now\<close> on the same messages.
\<close>

theorem C10_http_mark_read_keeps_readAt:
  assumes "ids \<noteq> []" "list_all isValid ids"
  shows "Messages (fst (mark_read isValid (Some ids) st))
           = map (\<lambda>m. if m_id m \<in> set ids then m\<lparr>read := True\<rparr> else m) (Messages st)
       \<and> map readAt (Messages (fst (mark_read isValid (Some ids) st))) = map readAt (Messages st)
       \<and> Messages (db (fst (on_markRead isValid e (Some ids) srv)))
           = map (\<lambda>m. if m_id m \<in> set ids then m\<lparr>read := True, readAt := Some (now e)\<rparr> else m)
               (Messages (db srv))"
  using assms by (simp add: mark_read_def on_markRead_def updateMany_def)

theorem C10_http_mark_read_witness:
  "[''64b0000000000000000000a0''] \<noteq> [] \<and> list_all isHex24 [''64b0000000000000000000a0'']
   \<and> Messages (fst (mark_read isHex24 (Some [''64b0000000000000000000a0'']) (db server1)))
       = [msg1\<lparr>read := True\<rparr>]
   \<and> readAt (msg1\<lparr>read := True\<rparr>) = None
   \<and> Messages (db (fst (on_markRead isHex24 env1 (Some [''64b0000000000000000000a0'']) server1)))
       = [msg1\<lparr>read := True, readAt := Some 2000\<rparr>]"
proof -
  have a: "[''64b0000000000000000000a0''] \<noteq> []" "list_all isHex24 [''64b0000000000000000000a0'']"
    by (simp_all add: isHex24_def)
  from C10_http_mark_read_keeps_readAt [OF a, of "db server1" env1 server1] a
  show ?thesis
    by (simp add: server1_def msg1_def env1_def)
qed

end
